theory Spec2Isabelle
  imports Main "HOL-Library.Sublist"
begin

section \<open>Strings\<close>

text \<open>
  Python strings are modelled as \<^typ>\<open>string\<close> holding the UTF-8 bytes of the text: the
  emoji of the message templates are written out byte by byte. Substring tests
  (\<^verbatim>\<open>in\<close>) agree on code points and on UTF-8 bytes, and no length of a non-ASCII text
  is taken anywhere in the program.
\<close>

definition nl :: string where
  "nl = [CHR 0x0A]"

definition emoji_folder :: string where
  "emoji_folder = [CHR 0xF0, CHR 0x9F, CHR 0x93, CHR 0x81]"

definition emoji_key :: string where
  "emoji_key = [CHR 0xF0, CHR 0x9F, CHR 0x94, CHR 0x91]"

definition emoji_lock :: string where
  "emoji_lock = [CHR 0xF0, CHR 0x9F, CHR 0x94, CHR 0x92]"

definition emoji_play :: string where
  "emoji_play = [CHR 0xE2, CHR 0x96, CHR 0xB6, CHR 0xEF, CHR 0xB8, CHR 0x8F]"

definition emoji_down :: string where
  "emoji_down = [CHR 0xE2, CHR 0xAC, CHR 0x87, CHR 0xEF, CHR 0xB8, CHR 0x8F]"

definition emoji_phone :: string where
  "emoji_phone = [CHR 0xF0, CHR 0x9F, CHR 0x93, CHR 0xB1]"

text \<open>\<^verbatim>\<open>str(n)\<close> for an integer: decimal digits, a minus sign for negatives.\<close>

definition digit_char :: "nat \<Rightarrow> char" where
  "digit_char d = ''0123456789'' ! d"

fun str_nat :: "nat \<Rightarrow> string" where
  "str_nat n = (if n < 10 then [digit_char n] else str_nat (n div 10) @ [digit_char (n mod 10)])"

declare str_nat.simps [simp del]

definition str_int :: "int \<Rightarrow> string" where
  "str_int i = (if i < 0 then CHR ''-'' # str_nat (nat (- i)) else str_nat (nat i))"

text \<open>
  \<^verbatim>\<open>template.format(**kw)\<close> for templates made, like those of \<^verbatim>\<open>config.py\<close>, of literal
  text and replacement fields \<^verbatim>\<open>{name}\<close>; doubled braces, conversions, format
  specifications and a closing brace outside a field do not occur in them and are not
  modelled. A field whose name is not among the keyword arguments raises \<^verbatim>\<open>KeyError\<close>
  (\<^const>\<open>None\<close>); an unclosed brace raises \<^verbatim>\<open>ValueError\<close> (\<^const>\<open>None\<close> as well). The
  substituted values are not scanned again.
\<close>

function py_format :: "string \<Rightarrow> (string \<times> string) list \<Rightarrow> string option" where
  "py_format [] kw = Some []"
| "py_format (c # cs) kw =
     (if c = CHR ''{'' then
        (if CHR ''}'' \<in> set cs then
           (case map_of kw (takeWhile (\<lambda>x. x \<noteq> CHR ''}'') cs) of
              None \<Rightarrow> None
            | Some v \<Rightarrow> map_option (\<lambda>r. v @ r)
                         (py_format (drop 1 (dropWhile (\<lambda>x. x \<noteq> CHR ''}'') cs)) kw))
         else None)
      else map_option (\<lambda>r. c # r) (py_format cs kw))"
  by pat_completeness auto
termination
proof (relation "measure (\<lambda>(t, kw). length t)")
  show "wf (measure (\<lambda>(t, kw). length t))"
    by simp
next
  fix c :: char and cs :: string and kw :: "(string \<times> string) list" and v :: string
  have "length (dropWhile (\<lambda>x. x \<noteq> CHR ''}'') cs) \<le> length cs"
    by (rule length_dropWhile_le)
  then show "((drop 1 (dropWhile (\<lambda>x. x \<noteq> CHR ''}'') cs), kw), c # cs, kw)
      \<in> measure (\<lambda>(t, kw). length t)"
    by simp
next
  fix c :: char and cs :: string and kw :: "(string \<times> string) list"
  show "((cs, kw), c # cs, kw) \<in> measure (\<lambda>(t, kw). length t)"
    by simp
qed

text \<open>
  \<^verbatim>\<open>str.strip()\<close> removes the characters for which \<^verbatim>\<open>str.isspace\<close> holds from both ends.
  \<open>whitespace\<close> lists their UTF-8 encodings: U+0009 to U+000D, U+001C to U+0020, U+0085,
  U+00A0, U+1680, U+2000 to U+200A, U+2028, U+2029, U+202F, U+205F and U+3000.
\<close>

definition whitespace :: "string list" where
  "whitespace =
     [[CHR 0x09], [CHR 0x0A], [CHR 0x0B], [CHR 0x0C], [CHR 0x0D],
      [CHR 0x1C], [CHR 0x1D], [CHR 0x1E], [CHR 0x1F], [CHR 0x20],
      [CHR 0xC2, CHR 0x85], [CHR 0xC2, CHR 0xA0], [CHR 0xE1, CHR 0x9A, CHR 0x80],
      [CHR 0xE2, CHR 0x80, CHR 0x80], [CHR 0xE2, CHR 0x80, CHR 0x81],
      [CHR 0xE2, CHR 0x80, CHR 0x82], [CHR 0xE2, CHR 0x80, CHR 0x83],
      [CHR 0xE2, CHR 0x80, CHR 0x84], [CHR 0xE2, CHR 0x80, CHR 0x85],
      [CHR 0xE2, CHR 0x80, CHR 0x86], [CHR 0xE2, CHR 0x80, CHR 0x87],
      [CHR 0xE2, CHR 0x80, CHR 0x88], [CHR 0xE2, CHR 0x80, CHR 0x89],
      [CHR 0xE2, CHR 0x80, CHR 0x8A], [CHR 0xE2, CHR 0x80, CHR 0xA8],
      [CHR 0xE2, CHR 0x80, CHR 0xA9], [CHR 0xE2, CHR 0x80, CHR 0xAF],
      [CHR 0xE2, CHR 0x81, CHR 0x9F], [CHR 0xE3, CHR 0x80, CHR 0x80]]"

function strip_prefixes :: "string list \<Rightarrow> string \<Rightarrow> string" where
  "strip_prefixes ws s =
     (case find (\<lambda>w. w \<noteq> [] \<and> prefix w s) ws of
        None \<Rightarrow> s
      | Some w \<Rightarrow> strip_prefixes ws (drop (length w) s))"
  by pat_completeness auto
termination
proof (relation "measure (\<lambda>(ws, s). length s)")
  show "wf (measure (\<lambda>(ws, s). length s))"
    by simp
next
  fix ws :: "string list" and s w :: string
  assume "find (\<lambda>w. w \<noteq> [] \<and> prefix w s) ws = Some w"
  then have "w \<noteq> []" and "prefix w s"
    by (auto simp: find_Some_iff)
  then have "0 < length w" and "length w \<le> length s"
    by (simp_all add: prefix_length_le)
  then have "length s - length w < length s"
    by arith
  then show "((ws, drop (length w) s), ws, s) \<in> measure (\<lambda>(ws, s). length s)"
    by simp
qed

declare strip_prefixes.simps [simp del]

definition lstrip :: "string \<Rightarrow> string" where
  "lstrip s = strip_prefixes whitespace s"

definition rstrip :: "string \<Rightarrow> string" where
  "rstrip s = rev (strip_prefixes (map rev whitespace) (rev s))"

definition strip :: "string \<Rightarrow> string" where
  "strip s = rstrip (lstrip s)"

text \<open>
  \<^verbatim>\<open>secrets.token_urlsafe(n)\<close>: \<open>n\<close> bytes from the system's random source, in URL-safe
  base64 with the padding stripped. \<open>rnd\<close> is the random source: \<open>rnd i mod 256\<close> is
  the \<open>i\<close>-th byte it hands out.
\<close>

definition urlsafe_alphabet :: string where
  "urlsafe_alphabet = ''ABCDEFGHIJKLMNOPQRSTUVWXYZabcdefghijklmnopqrstuvwxyz0123456789-_''"

fun urlsafe_b64encode :: "nat list \<Rightarrow> string" where
  "urlsafe_b64encode [] = []"
| "urlsafe_b64encode [a] =
     [urlsafe_alphabet ! (a div 4), urlsafe_alphabet ! ((a mod 4) * 16), CHR ''='', CHR ''='']"
| "urlsafe_b64encode [a, b] =
     [urlsafe_alphabet ! (a div 4), urlsafe_alphabet ! ((a mod 4) * 16 + b div 16),
      urlsafe_alphabet ! ((b mod 16) * 4), CHR ''='']"
| "urlsafe_b64encode (a # b # c # rest) =
     [urlsafe_alphabet ! (a div 4), urlsafe_alphabet ! ((a mod 4) * 16 + b div 16),
      urlsafe_alphabet ! ((b mod 16) * 4 + c div 64), urlsafe_alphabet ! (c mod 64)]
     @ urlsafe_b64encode rest"

definition token_bytes :: "nat \<Rightarrow> (nat \<Rightarrow> nat) \<Rightarrow> nat list" where
  "token_bytes n rnd = map (\<lambda>i. rnd i mod 256) [0..<n]"

definition token_urlsafe :: "nat \<Rightarrow> (nat \<Rightarrow> nat) \<Rightarrow> string" where
  "token_urlsafe n rnd =
     rev (dropWhile (\<lambda>c. c = CHR ''='') (rev (urlsafe_b64encode (token_bytes n rnd))))"

section \<open>config.py\<close>

definition STREAM_LINK_PATTERN :: string where
  "STREAM_LINK_PATTERN = ''https://stream.example.com/{file_key}''"

definition DOWNLOAD_LINK_PATTERN :: string where
  "DOWNLOAD_LINK_PATTERN = ''https://download.example.com/{file_key}''"

definition TG_LINK_PATTERN :: string where
  "TG_LINK_PATTERN = ''https://t.me/{bot_username}/{message_id}''"

section \<open>links.py\<close>

definition generate_stream_link :: "string \<Rightarrow> string option" where
  "generate_stream_link file_key = py_format STREAM_LINK_PATTERN [(''file_key'', file_key)]"

definition generate_download_link :: "string \<Rightarrow> string option" where
  "generate_download_link file_key = py_format DOWNLOAD_LINK_PATTERN [(''file_key'', file_key)]"

definition generate_tg_link :: "string \<Rightarrow> int \<Rightarrow> string option" where
  "generate_tg_link bot_username message_id =
     py_format TG_LINK_PATTERN
       [(''bot_username'', bot_username), (''message_id'', str_int message_id)]"

text \<open>
  The three link arguments default to \<^verbatim>\<open>None\<close>; a link that is \<^verbatim>\<open>None\<close> or the empty
  string is falsy and its line is left out.
\<close>

definition truthy :: "string option \<Rightarrow> bool" where
  "truthy s = (case s of None \<Rightarrow> False | Some t \<Rightarrow> t \<noteq> [])"

definition format_links_message ::
  "string \<Rightarrow> string \<Rightarrow> bool \<Rightarrow> string option \<Rightarrow> string option \<Rightarrow> string option \<Rightarrow> string" where
  "format_links_message file_name file_key has_password stream_link download_link tg_link =
     (let message = emoji_folder @ '' **File Links for:** `'' @ file_name @ ''`'' @ nl @ nl;
          message = message @ emoji_key @ '' **File Key:** `'' @ file_key @ ''`'' @ nl;
          message = message @ emoji_lock @ '' **Password Protected:** ''
                      @ (if has_password then ''Yes'' else ''No'') @ nl @ nl;
          message = message @ ''**Available Links:**'' @ nl;
          message = (if truthy stream_link
                     then message @ emoji_play @ '' [Stream Link]('' @ the stream_link @ '')'' @ nl
                     else message);
          message = (if truthy download_link
                     then message @ emoji_down @ '' [Download Link]('' @ the download_link @ '')'' @ nl
                     else message);
          message = (if truthy tg_link
                     then message @ emoji_phone @ '' [Telegram Link]('' @ the tg_link @ '')'' @ nl
                     else message)
      in message)"

section \<open>storage.py\<close>

record FileMetadata =
  file_key :: string
  file_id :: string
  file_name :: string
  file_size :: int
  user_id :: int
  message_id_in_storage :: int
  has_password :: bool
  password :: "string option"
  created_at :: string

text \<open>
  The dataclass constructor with \<^verbatim>\<open>__post_init__\<close>: \<^verbatim>\<open>password\<close> and \<^verbatim>\<open>created_at\<close>
  default to \<^verbatim>\<open>None\<close>, and a missing \<^verbatim>\<open>created_at\<close> is filled from the clock
  (\<open>utcnow\<close> is the text \<^verbatim>\<open>datetime.utcnow().isoformat()\<close> returns at that moment).
\<close>

definition FileMetadata_init ::
  "string \<Rightarrow> string \<Rightarrow> string \<Rightarrow> string \<Rightarrow> int \<Rightarrow> int \<Rightarrow> int \<Rightarrow> bool \<Rightarrow> string option
    \<Rightarrow> string option \<Rightarrow> FileMetadata" where
  "FileMetadata_init utcnow fkey fid fname fsize uid mid has_pw pw created =
     \<lparr> file_key = fkey, file_id = fid, file_name = fname, file_size = fsize, user_id = uid,
       message_id_in_storage = mid, has_password = has_pw, password = pw,
       created_at = (case created of None \<Rightarrow> utcnow | Some t \<Rightarrow> t) \<rparr>"

text \<open>
  \<^verbatim>\<open>FileStorage\<close>: the dictionary \<^verbatim>\<open>self.data\<close> and the JSON file it is dumped to. The
  file is modelled by the table it holds (\<open>disk\<close>); \<^verbatim>\<open>_save\<close> rewrites it whole. The
  records are stored by reference, but no handler keeps a reference across a later
  mutation, so the dictionary holds values here.
\<close>

record FileStorage =
  data :: "string \<rightharpoonup> FileMetadata"
  disk :: "string \<rightharpoonup> FileMetadata"

definition save :: "FileStorage \<Rightarrow> FileStorage" where
  "save st = st\<lparr>disk := data st\<rparr>"

definition generate_file_key :: "(nat \<Rightarrow> nat) \<Rightarrow> string" where
  "generate_file_key rnd = token_urlsafe 16 rnd"

definition store_file :: "FileStorage \<Rightarrow> FileMetadata \<Rightarrow> string \<times> FileStorage" where
  "store_file st file_metadata =
     (let key = file_key file_metadata;
          st = st\<lparr>data := (data st)(key \<mapsto> file_metadata)\<rparr>;
          st = save st
      in (key, st))"

definition get_file :: "FileStorage \<Rightarrow> string \<Rightarrow> FileMetadata option" where
  "get_file st fkey = data st fkey"

definition update_password :: "FileStorage \<Rightarrow> string \<Rightarrow> string \<Rightarrow> bool \<times> FileStorage" where
  "update_password st fkey pw =
     (case data st fkey of
        Some m \<Rightarrow>
          (let st = st\<lparr>data := (data st)(fkey \<mapsto> m\<lparr>password := Some pw\<rparr>)\<rparr>;
               st = st\<lparr>data := (data st)(fkey \<mapsto> (the (data st fkey))\<lparr>has_password := True\<rparr>)\<rparr>;
               st = save st
           in (True, st))
      | None \<Rightarrow> (False, st))"

definition delete_file :: "FileStorage \<Rightarrow> string \<Rightarrow> bool \<times> FileStorage" where
  "delete_file st fkey =
     (if fkey \<in> dom (data st)
      then (True, save (st\<lparr>data := (data st)(fkey := None)\<rparr>))
      else (False, st))"

section \<open>states.py\<close>

text \<open>
  \<^verbatim>\<open>UserState\<close>. A field carries the prefix \<open>s_\<close> where \<^typ>\<open>FileMetadata\<close> has a
  field of the same name, or where the name is reserved.
\<close>

record UserState =
  s_user_id :: int
  s_file_key :: "string option"
  s_file_id :: "string option"
  s_file_name :: "string option"
  s_file_size :: "int option"
  awaiting_password :: bool
  password_choice :: "string option"
  s_context :: "(string \<times> string) list"

definition UserState_init :: "int \<Rightarrow> UserState" where
  "UserState_init uid =
     \<lparr> s_user_id = uid, s_file_key = None, s_file_id = None, s_file_name = None,
       s_file_size = None, awaiting_password = False, password_choice = None, s_context = [] \<rparr>"

text \<open>
  \<^verbatim>\<open>StateManager.states\<close>. \<^verbatim>\<open>get_state\<close> returns the object held in the dictionary, and
  the setters mutate that object in place; here a setter writes the changed value back
  under the same user.
\<close>

type_synonym StateManager = "int \<rightharpoonup> UserState"

definition get_state :: "StateManager \<Rightarrow> int \<Rightarrow> UserState \<times> StateManager" where
  "get_state states uid =
     (case states uid of
        None \<Rightarrow> (UserState_init uid, states(uid \<mapsto> UserState_init uid))
      | Some s \<Rightarrow> (s, states))"

definition set_file_info ::
  "StateManager \<Rightarrow> int \<Rightarrow> string \<Rightarrow> string \<Rightarrow> string \<Rightarrow> int \<Rightarrow> StateManager" where
  "set_file_info states uid fkey fid fname fsize =
     (let (state, states) = get_state states uid;
          state = state\<lparr>s_file_key := Some fkey\<rparr>;
          state = state\<lparr>s_file_id := Some fid\<rparr>;
          state = state\<lparr>s_file_name := Some fname\<rparr>;
          state = state\<lparr>s_file_size := Some fsize\<rparr>
      in states(uid \<mapsto> state))"

definition set_awaiting_password :: "StateManager \<Rightarrow> int \<Rightarrow> bool \<Rightarrow> StateManager" where
  "set_awaiting_password states uid awaiting =
     (let (state, states) = get_state states uid
      in states(uid \<mapsto> state\<lparr>awaiting_password := awaiting\<rparr>))"

definition set_password_choice :: "StateManager \<Rightarrow> int \<Rightarrow> string \<Rightarrow> StateManager" where
  "set_password_choice states uid choice =
     (let (state, states) = get_state states uid
      in states(uid \<mapsto> state\<lparr>password_choice := Some choice\<rparr>))"

definition clear_state :: "StateManager \<Rightarrow> int \<Rightarrow> StateManager" where
  "clear_state states uid = (if uid \<in> dom states then states(uid := None) else states)"

section \<open>keyboards.py\<close>

text \<open>An inline keyboard: rows of buttons, each a label and its callback data.\<close>

type_synonym keyboard = "(string \<times> string) list list"

definition emoji_check :: string where
  "emoji_check = [CHR 0xE2, CHR 0x9C, CHR 0x85]"

definition password_choice_keyboard :: keyboard where
  "password_choice_keyboard =
     [[(emoji_check @ '' No Password'', ''pwd_no''),
       (emoji_lock @ '' Yes, Set Password'', ''pwd_yes'')]]"

section \<open>bot.py\<close>

subsection \<open>The messaging platform\<close>

text \<open>
  The Pyrogram client is outside the program. Every call the handlers make to it is
  recorded in \<open>outbox\<close>, in order, and may raise \<^verbatim>\<open>RpcError\<close>: \<open>faults\<close> lists the
  outcomes of the calls to come (\<open>True\<close>: the call raises), and a call made when the list
  is used up succeeds. \<open>bot_username\<close> is what \<^verbatim>\<open>get_me()\<close> reports and
  \<open>STORAGE_CHANNEL_ID\<close> the configured archive chat. Logging is left out.
\<close>

datatype action =
    ReplyText int string
  | EditText int string
  | EditFileReceived int string int string keyboard
  | Answer int "string option" bool
  | ForwardMessages int int int
  | GetMe

datatype exn = RpcError | KeyError | AttributeError

record world =
  state_manager :: StateManager
  storage :: FileStorage
  outbox :: "action list"
  faults :: "bool list"
  bot_username :: string
  STORAGE_CHANNEL_ID :: int

type_synonym 'a comp = "world \<Rightarrow> (exn + 'a) \<times> world"

definition returnE :: "'a \<Rightarrow> 'a comp" where
  "returnE x w = (Inr x, w)"

definition raiseE :: "exn \<Rightarrow> 'a comp" where
  "raiseE e w = (Inl e, w)"

definition bindE :: "'a comp \<Rightarrow> ('a \<Rightarrow> 'b comp) \<Rightarrow> 'b comp" where
  "bindE f g w = (case f w of (Inl e, w') \<Rightarrow> (Inl e, w') | (Inr x, w') \<Rightarrow> g x w')"

definition try_except :: "'a comp \<Rightarrow> (exn \<Rightarrow> 'a comp) \<Rightarrow> 'a comp" where
  "try_except f h w = (case f w of (Inl e, w') \<Rightarrow> h e w' | (Inr x, w') \<Rightarrow> (Inr x, w'))"

definition modify :: "(world \<Rightarrow> world) \<Rightarrow> unit comp" where
  "modify f w = (Inr (), f w)"

definition from_format :: "string option \<Rightarrow> string comp" where
  "from_format r = (case r of None \<Rightarrow> raiseE KeyError | Some t \<Rightarrow> returnE t)"

definition platform_call :: "action \<Rightarrow> unit comp" where
  "platform_call a w =
     (case faults w of
        [] \<Rightarrow> (Inr (), w\<lparr>outbox := outbox w @ [a]\<rparr>)
      | f # fs \<Rightarrow>
          (if f then (Inl RpcError, w\<lparr>faults := fs\<rparr>)
           else (Inr (), w\<lparr>outbox := outbox w @ [a], faults := fs\<rparr>)))"

text \<open>How an f-string or \<^verbatim>\<open>format\<close> renders an optional string.\<close>

definition str_opt :: "string option \<Rightarrow> string" where
  "str_opt s = (case s of None \<Rightarrow> ''None'' | Some t \<Rightarrow> t)"

definition emoji_cross :: string where
  "emoji_cross = [CHR 0xE2, CHR 0x9D, CHR 0x8C]"

definition emoji_hourglass :: string where
  "emoji_hourglass = [CHR 0xE2, CHR 0x8F, CHR 0xB3]"

definition emoji_locked_key :: string where
  "emoji_locked_key = [CHR 0xF0, CHR 0x9F, CHR 0x94, CHR 0x90]"

subsection \<open>Delivery\<close>

text \<open>
  \<^verbatim>\<open>_deliver_links\<close> is called with either the callback query or the message. \<open>state\<close> is
  the object \<^verbatim>\<open>get_state\<close> returned to the handler; nothing mutates it between that
  call and its last use here, so its value at the call is passed.
\<close>

datatype origin = FromCallback | FromMessage

definition report :: "origin \<Rightarrow> int \<Rightarrow> string \<Rightarrow> unit comp" where
  "report orig uid text =
     (case orig of
        FromCallback \<Rightarrow> platform_call (Answer uid (Some text) True)
      | FromMessage \<Rightarrow> platform_call (ReplyText uid text))"

definition lookup_file :: "FileStorage \<Rightarrow> string option \<Rightarrow> FileMetadata option" where
  \<comment> \<open>\<^verbatim>\<open>storage.get_file(state.file_key)\<close>: the key \<^verbatim>\<open>None\<close> is in no dictionary.\<close>
  "lookup_file st fkey = (case fkey of None \<Rightarrow> None | Some k \<Rightarrow> get_file st k)"

definition deliver_links ::
  "int \<Rightarrow> UserState \<Rightarrow> bool \<Rightarrow> string option \<Rightarrow> origin \<Rightarrow> unit comp" where
  "deliver_links uid state has_pw pw orig =
     try_except
       (bindE (from_format (generate_stream_link (str_opt (s_file_key state)))) (\<lambda>stream_link.
        bindE (from_format (generate_download_link (str_opt (s_file_key state)))) (\<lambda>download_link.
        (\<lambda>w.
          (case lookup_file (storage w) (s_file_key state) of
             None \<Rightarrow> report orig uid (emoji_cross @ '' File not found'') w
           | Some metadata \<Rightarrow>
               bindE (platform_call GetMe) (\<lambda>_.
               bindE (\<lambda>w. from_format
                        (generate_tg_link (bot_username w) (message_id_in_storage metadata)) w)
                 (\<lambda>tg_link.
               bindE
                 (case orig of
                    FromCallback \<Rightarrow>
                      bindE (platform_call (EditText uid
                               (format_links_message (str_opt (s_file_name state))
                                  (str_opt (s_file_key state)) has_pw
                                  (Some stream_link) (Some download_link) (Some tg_link))))
                        (\<lambda>_. platform_call
                                (Answer uid (Some (emoji_check @ '' Links generated!'')) False))
                  | FromMessage \<Rightarrow>
                      platform_call (ReplyText uid
                        (format_links_message (str_opt (s_file_name state))
                           (str_opt (s_file_key state)) has_pw
                           (Some stream_link) (Some download_link) (Some tg_link))))
                 (\<lambda>_. modify (\<lambda>w. w\<lparr>state_manager := clear_state (state_manager w) uid\<rparr>))))
                 w)))))
       (\<lambda>e. report orig uid (emoji_cross @ '' Error generating links. Please try again.''))"

subsection \<open>Handler 2: file upload\<close>

text \<open>
  The inbound message: its sender, its id, and the attachment of each kind it may carry.
  A missing or empty file name is falsy and replaced by the default.
\<close>

record media =
  m_file_id :: string
  m_file_name :: "string option"
  m_file_size :: int
  m_file_unique_id :: string

record upload =
  from_user :: int
  message_id :: int
  document :: "media option"
  video :: "media option"
  audio :: "media option"

definition or_default :: "string option \<Rightarrow> string \<Rightarrow> string" where
  "or_default s d = (if truthy s then the s else d)"

definition extract_file :: "upload \<Rightarrow> (string \<times> string \<times> int) option" where
  "extract_file message =
     (case document message of
        Some f \<Rightarrow> Some (m_file_id f, or_default (m_file_name f) ''document'', m_file_size f)
      | None \<Rightarrow>
     (case video message of
        Some f \<Rightarrow> Some (m_file_id f,
                   or_default (m_file_name f) (''video_'' @ take 8 (m_file_unique_id f)),
                   m_file_size f)
      | None \<Rightarrow>
     (case audio message of
        Some f \<Rightarrow> Some (m_file_id f,
                   or_default (m_file_name f) (''audio_'' @ take 8 (m_file_unique_id f)),
                   m_file_size f)
      | None \<Rightarrow> None)))"

text \<open>
  \<open>rnd\<close> is the random source of the key generator, \<open>utcnow\<close> the clock's text when the
  record is built, \<open>stored_id\<close> the id of the message \<^verbatim>\<open>forward_messages\<close> returns. The text
  of step 6 renders the size through floating point; the action \<^const>\<open>EditFileReceived\<close>
  carries its three values and the keyboard instead of the text.
\<close>

definition file_upload_handler :: "(nat \<Rightarrow> nat) \<Rightarrow> string \<Rightarrow> int \<Rightarrow> upload \<Rightarrow> unit comp" where
  "file_upload_handler rnd utcnow stored_id message =
     (let uid = from_user message in
      case extract_file message of
        None \<Rightarrow> returnE ()
      | Some (fid, fname, fsize) \<Rightarrow>
          try_except
            (bindE (platform_call (ReplyText uid (emoji_hourglass @ '' Processing your file...'')))
               (\<lambda>_.
             bindE (\<lambda>w. platform_call (ForwardMessages (STORAGE_CHANNEL_ID w) uid
                                         (message_id message)) w) (\<lambda>_.
             bindE (returnE (generate_file_key rnd)) (\<lambda>fkey.
             bindE (modify (\<lambda>w. w\<lparr>storage := snd (store_file (storage w)
                      (FileMetadata_init utcnow fkey fid fname fsize uid stored_id False
                         None None))\<rparr>)) (\<lambda>_.
             bindE (modify (\<lambda>w. w\<lparr>state_manager :=
                      set_file_info (state_manager w) uid fkey fid fname fsize\<rparr>)) (\<lambda>_.
             platform_call (EditFileReceived uid fname fsize fkey password_choice_keyboard)))))))
            (\<lambda>e. case e of
               RpcError \<Rightarrow> platform_call
                 (ReplyText uid (emoji_cross @ '' Error processing file. Please try again.''))
             | _ \<Rightarrow> platform_call
                 (ReplyText uid (emoji_cross @ '' Unexpected error. Please try again.''))))"

subsection \<open>Handler 3: password choice\<close>

definition password_choice_callback :: "int \<Rightarrow> string \<Rightarrow> unit comp" where
  "password_choice_callback uid choice =
     (\<lambda>w.
       (let (state, states) = get_state (state_manager w) uid;
            w = w\<lparr>state_manager := states\<rparr>
        in if \<not> truthy (s_file_key state)
           then platform_call
                  (Answer uid (Some (emoji_cross @ '' No file in progress. Send a file first.''))
                     True) w
           else
             try_except
               (if choice = ''pwd_no'' then deliver_links uid state False None FromCallback
                else if choice = ''pwd_yes'' then
                  bindE (modify (\<lambda>w. w\<lparr>state_manager :=
                           set_awaiting_password (state_manager w) uid True\<rparr>)) (\<lambda>_.
                  bindE (modify (\<lambda>w. w\<lparr>state_manager :=
                           set_password_choice (state_manager w) uid ''yes''\<rparr>)) (\<lambda>_.
                  bindE (platform_call (EditText uid
                           (emoji_locked_key @ '' Enter a password for your file:'' @ nl @ nl
                              @ ''Just send the password as a message.''))) (\<lambda>_.
                  platform_call (Answer uid None False))))
                else returnE ())
               (\<lambda>e. case e of
                  RpcError \<Rightarrow> platform_call
                    (Answer uid (Some (emoji_cross @ '' Error processing choice'')) True)
                | _ \<Rightarrow> platform_call
                    (Answer uid (Some (emoji_cross @ '' Unexpected error'')) True))
               w))"

subsection \<open>Handler 4: password input\<close>

text \<open>
  \<open>text\<close> is \<^verbatim>\<open>message.text\<close>, \<^verbatim>\<open>None\<close> for a message without text: \<^verbatim>\<open>None.strip()\<close> raises
  \<^verbatim>\<open>AttributeError\<close> outside the \<^verbatim>\<open>try\<close>. \<^verbatim>\<open>update_password\<close> on the key \<^verbatim>\<open>None\<close> finds no
  record.
\<close>

definition password_input_handler :: "int \<Rightarrow> string option \<Rightarrow> unit comp" where
  "password_input_handler uid text =
     (\<lambda>w.
       (let (state, states) = get_state (state_manager w) uid;
            w = w\<lparr>state_manager := states\<rparr>
        in if \<not> awaiting_password state then (Inr (), w)
           else
             (case text of
                None \<Rightarrow> (Inl AttributeError, w)
              | Some t \<Rightarrow>
                  (let pw = strip t
                   in if pw = [] \<or> length pw < 1
                      then platform_call
                             (ReplyText uid
                                (emoji_cross @ '' Password cannot be empty. Please try again:'')) w
                      else
                        try_except
                          (bindE (modify (\<lambda>w.
                              (case s_file_key state of
                                 None \<Rightarrow> w
                               | Some k \<Rightarrow> w\<lparr>storage := snd (update_password (storage w) k pw)\<rparr>)))
                             (\<lambda>_. deliver_links uid state True (Some pw) FromMessage))
                          (\<lambda>e. platform_call
                             (ReplyText uid
                                (emoji_cross @ '' Error setting password. Please try again.'')))
                          w))))"

section \<open>Notions used by the properties\<close>

text \<open>A run of insertions, one \<^const>\<open>store_file\<close> after the other.\<close>

definition store_all :: "FileStorage \<Rightarrow> FileMetadata list \<Rightarrow> FileStorage" where
  "store_all st rs = foldl (\<lambda>s r. snd (store_file s r)) st rs"

text \<open>No platform call to come fails.\<close>

definition reliable :: "world \<Rightarrow> bool" where
  "reliable w = (True \<notin> set (faults w))"

text \<open>
  The display block for the pending file of a session whose record is \<open>md\<close>, with the
  links the templates give for its key.
\<close>

definition links_message_for :: "world \<Rightarrow> UserState \<Rightarrow> FileMetadata \<Rightarrow> bool \<Rightarrow> string" where
  "links_message_for w state md has_pw =
     format_links_message (str_opt (s_file_name state)) (str_opt (s_file_key state)) has_pw
       (Some (''https://stream.example.com/'' @ str_opt (s_file_key state)))
       (Some (''https://download.example.com/'' @ str_opt (s_file_key state)))
       (Some (''https://t.me/'' @ bot_username w @ ''/'' @ str_int (message_id_in_storage md)))"

text \<open>A session that names a key the store does not hold, for user 7.\<close>

definition ex_session :: UserState where
  "ex_session = (UserState_init 7)\<lparr>s_file_key := Some ''gone'', s_file_id := Some ''id0'',
     s_file_name := Some ''a.pdf'', s_file_size := Some 10\<rparr>"

definition ex_orphan :: world where
  "ex_orphan = \<lparr>state_manager = [7 \<mapsto> ex_session],
     storage = \<lparr>data = Map.empty, disk = Map.empty\<rparr>,
     outbox = [], faults = [], bot_username = ''mybot'', STORAGE_CHANNEL_ID = -100\<rparr>"

text \<open>A property of the system that a computation maintains, whether it raises or not.\<close>

definition preserves :: "(world \<Rightarrow> bool) \<Rightarrow> 'a comp \<Rightarrow> bool" where
  "preserves I f = (\<forall>w. I w \<longrightarrow> I (snd (f w)))"

text \<open>
  A run used as an example: an empty system with a platform that accepts every call, two
  uploads of user 7, and two random sources.
\<close>

definition ex_start :: world where
  "ex_start = \<lparr>state_manager = Map.empty, storage = \<lparr>data = Map.empty, disk = Map.empty\<rparr>,
     outbox = [], faults = [], bot_username = ''mybot'', STORAGE_CHANNEL_ID = -100\<rparr>"

definition ex_upload_A :: upload where
  "ex_upload_A = \<lparr>from_user = 7, message_id = 11,
     document = Some \<lparr>m_file_id = ''fidA'', m_file_name = Some ''a.pdf'', m_file_size = 10,
                       m_file_unique_id = ''uniqueA''\<rparr>,
     video = None, audio = None\<rparr>"

definition ex_upload_B :: upload where
  "ex_upload_B = \<lparr>from_user = 7, message_id = 12, document = None,
     video = Some \<lparr>m_file_id = ''fidB'', m_file_name = None, m_file_size = 20,
                    m_file_unique_id = ''uniqueB123''\<rparr>,
     audio = None\<rparr>"

definition rnd_A :: "nat \<Rightarrow> nat" where
  "rnd_A i = i"

definition rnd_B :: "nat \<Rightarrow> nat" where
  "rnd_B i = 255"

text \<open>A system in which user 7 has chosen to set a password for the stored file \<open>k1\<close>.\<close>

definition ex_record :: FileMetadata where
  "ex_record = FileMetadata_init ''2024-01-01T00:00:00'' ''k1'' ''id1'' ''a.pdf'' 10 7 42 False
     None None"

definition ex_waiting_session :: UserState where
  "ex_waiting_session = (UserState_init 7)\<lparr>s_file_key := Some ''k1'', s_file_id := Some ''id1'',
     s_file_name := Some ''a.pdf'', s_file_size := Some 10, awaiting_password := True,
     password_choice := Some ''yes''\<rparr>"

definition ex_waiting :: world where
  "ex_waiting = \<lparr>state_manager = [7 \<mapsto> ex_waiting_session],
     storage = \<lparr>data = [''k1'' \<mapsto> ex_record], disk = [''k1'' \<mapsto> ex_record]\<rparr>,
     outbox = [], faults = [], bot_username = ''mybot'', STORAGE_CHANNEL_ID = -100\<rparr>"

text \<open>
  The empty system on a platform that accepts the three calls of an upload and fails the
  call after them.
\<close>

definition ex_flaky :: world where
  "ex_flaky = \<lparr>state_manager = Map.empty, storage = \<lparr>data = Map.empty, disk = Map.empty\<rparr>,
     outbox = [], faults = [False, False, False, True], bot_username = ''mybot'',
     STORAGE_CHANNEL_ID = -100\<rparr>"

section \<open>Properties of the store\<close>

lemma data_store_file:
  "data (snd (store_file st r)) = (data st)(file_key r \<mapsto> r)"
  by (simp add: store_file_def save_def Let_def)

lemma dom_store_all:
  "dom (data (store_all st rs)) = dom (data st) \<union> file_key ` set rs"
  unfolding store_all_def
  by (induction rs arbitrary: st) (auto simp: data_store_file)

text \<open>
  C5: a lookup of \<open>r\<close>'s key right after \<open>r\<close> was stored returns \<open>r\<close>, whatever the store
  held before; and a key that was not in the store initially and is the key of none
  of the records inserted since is absent.
\<close>

theorem get_after_store:
  "get_file (snd (store_file st r)) (file_key r) = Some r
   \<and> (k \<notin> dom (data st) \<longrightarrow> k \<notin> file_key ` set rs \<longrightarrow> get_file (store_all st rs) k = None)"
proof -
  have "get_file (snd (store_file st r)) (file_key r) = Some r"
    by (simp add: get_file_def data_store_file)
  moreover have "get_file (store_all st rs) k = None"
    if "k \<notin> dom (data st)" "k \<notin> file_key ` set rs"
  proof -
    from that have "k \<notin> dom (data (store_all st rs))"
      by (simp add: dom_store_all)
    then show ?thesis
      by (simp add: get_file_def domIff)
  qed
  ultimately show ?thesis
    by blast
qed

theorem get_after_store_witness:
  "get_file (snd (store_file \<lparr>data = Map.empty, disk = Map.empty\<rparr>
       (FileMetadata_init ''2024-01-01T00:00:00'' ''k1'' ''id1'' ''test.pdf'' 1048576 12345 999
          False None None)))
     ''k1''
   = Some (FileMetadata_init ''2024-01-01T00:00:00'' ''k1'' ''id1'' ''test.pdf'' 1048576 12345 999
          False None None)
   \<and> get_file (store_all \<lparr>data = Map.empty, disk = Map.empty\<rparr>
       [FileMetadata_init ''2024-01-01T00:00:00'' ''k1'' ''id1'' ''test.pdf'' 1048576 12345 999
          False None None])
     ''k2'' = None"
  using get_after_store [of "\<lparr>data = Map.empty, disk = Map.empty\<rparr>"
      "FileMetadata_init ''2024-01-01T00:00:00'' ''k1'' ''id1'' ''test.pdf'' 1048576 12345 999
          False None None"
      "''k2''"
      "[FileMetadata_init ''2024-01-01T00:00:00'' ''k1'' ''id1'' ''test.pdf'' 1048576 12345 999
          False None None]"]
  by (simp add: FileMetadata_init_def)

lemma update_password_absent:
  "data st k = None \<Longrightarrow> update_password st k p = (False, st)"
  by (simp add: update_password_def)

lemma update_password_present:
  "data st k = Some md \<Longrightarrow>
   get_file (snd (update_password st k p)) k = Some (md\<lparr>has_password := True, password := Some p\<rparr>)"
  by (simp add: update_password_def get_file_def save_def Let_def)

text \<open>
  C6: on an absent key \<^const>\<open>update_password\<close> returns \<open>False\<close> and the store (dictionary
  and file) is the one it was given; on a present key it returns \<open>True\<close>, a lookup of
  the key then gives the old record with \<open>has_password = True\<close> and the new password
  and every other field as before, and every other key keeps its record.
\<close>

theorem update_password_spec:
  "(data st k = None \<longrightarrow> update_password st k p = (False, st))
   \<and> (\<forall>m. data st k = Some m \<longrightarrow>
         fst (update_password st k p) = True
         \<and> get_file (snd (update_password st k p)) k
             = Some (m\<lparr>has_password := True, password := Some p\<rparr>)
         \<and> (\<forall>k'. k' \<noteq> k \<longrightarrow>
               get_file (snd (update_password st k p)) k' = get_file st k'))"
  by (auto simp: update_password_def get_file_def save_def Let_def)

theorem update_password_spec_witness:
  "update_password \<lparr>data = Map.empty, disk = Map.empty\<rparr> ''k1'' ''secret''
     = (False, \<lparr>data = Map.empty, disk = Map.empty\<rparr>)
   \<and> fst (update_password
        \<lparr>data = [''k1'' \<mapsto> FileMetadata_init ''2024-01-01T00:00:00'' ''k1'' ''id1'' ''test.pdf''
                     1048576 12345 999 False None None],
          disk = Map.empty\<rparr> ''k1'' ''secret'') = True
   \<and> get_file (snd (update_password
        \<lparr>data = [''k1'' \<mapsto> FileMetadata_init ''2024-01-01T00:00:00'' ''k1'' ''id1'' ''test.pdf''
                     1048576 12345 999 False None None],
          disk = Map.empty\<rparr> ''k1'' ''secret'')) ''k1''
     = Some \<lparr>file_key = ''k1'', file_id = ''id1'', file_name = ''test.pdf'', file_size = 1048576,
             user_id = 12345, message_id_in_storage = 999, has_password = True,
             password = Some ''secret'', created_at = ''2024-01-01T00:00:00''\<rparr>"
  using update_password_spec [of "\<lparr>data = Map.empty, disk = Map.empty\<rparr>" "''k1''" "''secret''"]
    update_password_spec [of
      "\<lparr>data = [''k1'' \<mapsto> FileMetadata_init ''2024-01-01T00:00:00'' ''k1'' ''id1'' ''test.pdf''
                     1048576 12345 999 False None None],
         disk = Map.empty\<rparr>" "''k1''" "''secret''"]
  by (simp add: FileMetadata_init_def)

section \<open>Properties of the link formatter\<close>

lemma generate_stream_link_eq:
  "generate_stream_link k = Some (''https://stream.example.com/'' @ k)"
  by (simp add: generate_stream_link_def STREAM_LINK_PATTERN_def)

lemma generate_download_link_eq:
  "generate_download_link k = Some (''https://download.example.com/'' @ k)"
  by (simp add: generate_download_link_def DOWNLOAD_LINK_PATTERN_def)

lemma generate_tg_link_eq:
  "generate_tg_link b m = Some (''https://t.me/'' @ b @ ''/'' @ str_int m)"
  by (simp add: generate_tg_link_def TG_LINK_PATTERN_def)

lemma sublist_app_right: "sublist x b \<Longrightarrow> sublist x (a @ b)"
  by (auto simp: sublist_append)

lemma sublist_app_left: "sublist x a \<Longrightarrow> sublist x (a @ b)"
  by (auto simp: sublist_append)

lemma format_links_message_eq:
  "format_links_message n k pw sl dl gl =
     (emoji_folder @ '' **File Links for:** `'') @ n @ (''`'' @ nl @ nl @ emoji_key @ '' **File Key:** `'')
     @ k @ (''`'' @ nl @ emoji_lock @ '' '')
     @ (''**Password Protected:** '' @ (if pw then ''Yes'' else ''No''))
     @ (nl @ nl @ ''**Available Links:**'' @ nl)
     @ (if truthy sl then emoji_play @ '' [Stream Link]('' @ the sl @ '')'' @ nl else [])
     @ (if truthy dl then emoji_down @ '' [Download Link]('' @ the dl @ '')'' @ nl else [])
     @ (if truthy gl then emoji_phone @ '' [Telegram Link]('' @ the gl @ '')'' @ nl else [])"
  by (simp add: format_links_message_def Let_def)

lemma sublist_link: "sublist s (if truthy (Some s) then e @ t @ the (Some s) @ c else [])"
proof (cases "s = []")
  case True
  then show ?thesis by simp
next
  case False
  have "sublist s (e @ t @ s @ c)"
    by (intro sublist_app_right sublist_append_rightI)
  with False show ?thesis
    by (simp add: truthy_def)
qed

lemma msg_name: "sublist n (format_links_message n k pw sl dl gl)"
  unfolding format_links_message_eq
  by (rule sublist_append_rightI | rule sublist_app_right)+

lemma msg_key: "sublist k (format_links_message n k pw sl dl gl)"
  unfolding format_links_message_eq
  by (rule sublist_append_rightI | rule sublist_app_right)+

lemma msg_status: "sublist (''**Password Protected:** '' @ (if pw then ''Yes'' else ''No'')) (format_links_message n k pw sl dl gl)"
  unfolding format_links_message_eq
  by (rule sublist_append_rightI | rule sublist_app_right)+

lemma msg_stream: "sublist s (format_links_message n k pw (Some s) dl gl)"
  unfolding format_links_message_eq
  by (intro sublist_app_right sublist_app_left sublist_link)

lemma msg_download: "sublist d (format_links_message n k pw sl (Some d) gl)"
  unfolding format_links_message_eq
  by (intro sublist_app_right sublist_app_left sublist_link)

lemma msg_tg: "sublist t (format_links_message n k pw sl dl (Some t))"
  unfolding format_links_message_eq
  by (intro sublist_app_right sublist_link)

lemma msg_key_line:
  "sublist (emoji_key @ '' **File Key:** `'' @ k @ ''`'' @ nl)
     (format_links_message n k pw sl dl gl)"
proof -
  have "prefix ((emoji_folder @ '' **File Links for:** `'' @ n @ ''`'' @ nl @ nl)
           @ (emoji_key @ '' **File Key:** `'' @ k @ ''`'' @ nl))
     (format_links_message n k pw sl dl gl)"
    by (simp add: format_links_message_eq)
  then obtain zs where "format_links_message n k pw sl dl gl
      = ((emoji_folder @ '' **File Links for:** `'' @ n @ ''`'' @ nl @ nl)
           @ (emoji_key @ '' **File Key:** `'' @ k @ ''`'' @ nl)) @ zs"
    by (auto simp: prefix_def)
  then have "format_links_message n k pw sl dl gl
      = (emoji_folder @ '' **File Links for:** `'' @ n @ ''`'' @ nl @ nl)
           @ (emoji_key @ '' **File Key:** `'' @ k @ ''`'' @ nl) @ zs"
    by simp
  then show ?thesis
    by (metis sublist_appendI)
qed

text \<open>
  C9: the stream and download links are their templates with the key substituted, the
  Telegram link its template with the bot's name and the decimal message id substituted;
  the display block built from a name, a key, a flag and three links contains the name,
  the key, the status text of the flag and each link.
\<close>

theorem link_formatter_spec:
  "generate_stream_link k = Some (''https://stream.example.com/'' @ k)
   \<and> generate_download_link k = Some (''https://download.example.com/'' @ k)
   \<and> generate_tg_link b m = Some (''https://t.me/'' @ b @ ''/'' @ str_int m)
   \<and> sublist n (format_links_message n k pw (Some s) (Some d) (Some t))
   \<and> sublist k (format_links_message n k pw (Some s) (Some d) (Some t))
   \<and> sublist (''**Password Protected:** '' @ (if pw then ''Yes'' else ''No''))
         (format_links_message n k pw (Some s) (Some d) (Some t))
   \<and> sublist s (format_links_message n k pw (Some s) (Some d) (Some t))
   \<and> sublist d (format_links_message n k pw (Some s) (Some d) (Some t))
   \<and> sublist t (format_links_message n k pw (Some s) (Some d) (Some t))"
  by (intro conjI generate_stream_link_eq generate_download_link_eq generate_tg_link_eq
      msg_name msg_key msg_status msg_stream msg_download msg_tg)

theorem link_formatter_spec_witness:
  "generate_stream_link ''abc123'' = Some ''https://stream.example.com/abc123''
   \<and> generate_download_link ''abc123'' = Some ''https://download.example.com/abc123''
   \<and> generate_tg_link ''mybot'' 42 = Some ''https://t.me/mybot/42''"
  using link_formatter_spec [of "''abc123''" "''mybot''" 42]
  by (simp add: str_int_def str_nat.simps digit_char_def)

section \<open>Properties of the key generator\<close>

lemma alphabet_nth: "i < 64 \<Longrightarrow> urlsafe_alphabet ! i \<in> set urlsafe_alphabet"
  by (rule nth_mem) (simp add: urlsafe_alphabet_def)

lemma pad_not_in_alphabet: "CHR ''='' \<notin> set urlsafe_alphabet"
  by (simp add: urlsafe_alphabet_def)

lemma alphabet_nth_not_pad: "i < 64 \<Longrightarrow> (urlsafe_alphabet ! i = CHR ''='') = False"
  using alphabet_nth [of i] pad_not_in_alphabet by auto

lemma b64_idx:
  "(a::nat) mod 256 div 4 < 64"
  "(a mod 256 mod 4) * 16 + b mod 256 div 16 < 64"
  "(b mod 256 mod 16) * 4 + c mod 256 div 64 < 64"
  "c mod 256 mod 64 < 64"
  "(a mod 256 mod 4) * 16 < 64"
  by simp_all

lemma upt16: "[0..<16] = [0,1,2,3,4,5,6,7,8,9,10,11,12,13,14,Suc 14]"
  by (simp add: upt_rec)

lemma generate_file_key_eq:
  "generate_file_key rnd =
     (let b = (\<lambda>i. rnd i mod 256) in
      [urlsafe_alphabet ! (b 0 div 4), urlsafe_alphabet ! ((b 0 mod 4) * 16 + b 1 div 16),
       urlsafe_alphabet ! ((b 1 mod 16) * 4 + b 2 div 64), urlsafe_alphabet ! (b 2 mod 64),
       urlsafe_alphabet ! (b 3 div 4), urlsafe_alphabet ! ((b 3 mod 4) * 16 + b 4 div 16),
       urlsafe_alphabet ! ((b 4 mod 16) * 4 + b 5 div 64), urlsafe_alphabet ! (b 5 mod 64),
       urlsafe_alphabet ! (b 6 div 4), urlsafe_alphabet ! ((b 6 mod 4) * 16 + b 7 div 16),
       urlsafe_alphabet ! ((b 7 mod 16) * 4 + b 8 div 64), urlsafe_alphabet ! (b 8 mod 64),
       urlsafe_alphabet ! (b 9 div 4), urlsafe_alphabet ! ((b 9 mod 4) * 16 + b 10 div 16),
       urlsafe_alphabet ! ((b 10 mod 16) * 4 + b 11 div 64), urlsafe_alphabet ! (b 11 mod 64),
       urlsafe_alphabet ! (b 12 div 4), urlsafe_alphabet ! ((b 12 mod 4) * 16 + b 13 div 16),
       urlsafe_alphabet ! ((b 13 mod 16) * 4 + b 14 div 64), urlsafe_alphabet ! (b 14 mod 64),
       urlsafe_alphabet ! (b 15 div 4), urlsafe_alphabet ! ((b 15 mod 4) * 16)])"
  by (simp add: generate_file_key_def token_urlsafe_def token_bytes_def upt16 Let_def
      alphabet_nth_not_pad b64_idx)

lemma generate_file_key_length: "length (generate_file_key rnd) = 22"
  by (simp add: generate_file_key_eq Let_def)

lemma generate_file_key_alphabet: "set (generate_file_key rnd) \<subseteq> set urlsafe_alphabet"
  by (simp add: generate_file_key_eq Let_def alphabet_nth b64_idx)

lemma generate_file_key_nonempty: "generate_file_key rnd \<noteq> []"
  using generate_file_key_length [of rnd] by auto

lemma key_not_in_text:
  assumes good: "set a \<subseteq> G" and len: "length a = length b" and neq: "a \<noteq> b"
    and p_last: "p \<noteq> []" "last p \<notin> G"
    and p_mid: "j < length a" "length p \<le> j + length a" "j < length p" "p ! j \<notin> G"
    and s_short: "length s < length a" and s_hd: "s \<noteq> [] \<longrightarrow> hd s \<notin> G"
  shows "\<not> sublist a (p @ b @ s)"
proof
  assume "sublist a (p @ b @ s)"
  then obtain ps ss where eq: "p @ b @ s = ps @ a @ ss"
    by (auto simp: sublist_def)
  let ?i = "length ps" and ?n = "length a"
  have total: "length p + ?n + length s = ?i + ?n + length ss"
    using arg_cong [OF eq, of length] len by simp
  have win: "(p @ b @ s) ! x \<in> G" if "?i \<le> x" "x < ?i + ?n" for x
  proof -
    have less: "x - ?i < ?n"
      using that by arith
    have "(ps @ a @ ss) ! x = a ! (x - ?i)"
      using that less by (simp add: nth_append)
    moreover have "a ! (x - ?i) \<in> set a"
      using less by (rule nth_mem)
    ultimately show ?thesis
      using good eq by auto
  qed
  consider (inside) "?i + ?n \<le> length p" | (over) "?i < length p" "length p < ?i + ?n"
    | (exact) "?i = length p" | (after) "length p < ?i"
    by arith
  then show False
  proof cases
    case inside
    then have "?i \<le> j" "j < ?i + ?n"
      using p_mid by arith+
    from win [OF this] have "p ! j \<in> G"
      using p_mid(3) by (simp add: nth_append)
    with p_mid(4) show False by simp
  next
    case over
    then have "?i \<le> length p - 1" "length p - 1 < ?i + ?n"
      by arith+
    from win [OF this] have "p ! (length p - 1) \<in> G"
      using p_last(1) by (simp add: nth_append)
    with p_last show False
      by (simp add: last_conv_nth)
  next
    case exact
    with eq have "b @ s = a @ ss"
      by simp
    with len have "a = b"
      by simp
    with neq show False by simp
  next
    case after
    with total s_short have "?i \<le> length p + ?n" "length p + ?n < ?i + ?n" "s \<noteq> []"
      by auto
    from win [OF this(1,2)] have "s ! 0 \<in> G"
      using len by (simp add: nth_append)
    with \<open>s \<noteq> []\<close> s_hd show False
      by (simp add: hd_conv_nth)
  qed
qed

lemma key_not_in_stream_link:
  assumes "generate_file_key rndA \<noteq> generate_file_key rndB"
  shows "\<not> sublist (generate_file_key rndA)
           (''https://stream.example.com/'' @ generate_file_key rndB)"
proof -
  have "\<not> sublist (generate_file_key rndA)
           (''https://stream.example.com/'' @ generate_file_key rndB @ [])"
  proof (rule key_not_in_text [where G = "set urlsafe_alphabet" and j = 7])
    show "set (generate_file_key rndA) \<subseteq> set urlsafe_alphabet"
      by (rule generate_file_key_alphabet)
  qed (simp_all add: generate_file_key_length assms urlsafe_alphabet_def)
  then show ?thesis by simp
qed

lemma key_not_in_download_link:
  assumes "generate_file_key rndA \<noteq> generate_file_key rndB"
  shows "\<not> sublist (generate_file_key rndA)
           (''https://download.example.com/'' @ generate_file_key rndB)"
proof -
  have "\<not> sublist (generate_file_key rndA)
           (''https://download.example.com/'' @ generate_file_key rndB @ [])"
  proof (rule key_not_in_text [where G = "set urlsafe_alphabet" and j = 7])
    show "set (generate_file_key rndA) \<subseteq> set urlsafe_alphabet"
      by (rule generate_file_key_alphabet)
  qed (simp_all add: generate_file_key_length assms urlsafe_alphabet_def)
  then show ?thesis by simp
qed

lemma key_not_in_key_line:
  assumes "generate_file_key rndA \<noteq> generate_file_key rndB"
  shows "\<not> sublist (generate_file_key rndA)
           (emoji_key @ '' **File Key:** `'' @ generate_file_key rndB @ ''`'' @ nl)"
proof -
  have "\<not> sublist (generate_file_key rndA)
           ((emoji_key @ '' **File Key:** `'') @ generate_file_key rndB @ (''`'' @ nl))"
  proof (rule key_not_in_text [where G = "set urlsafe_alphabet" and j = 19])
    show "set (generate_file_key rndA) \<subseteq> set urlsafe_alphabet"
      by (rule generate_file_key_alphabet)
  qed (simp_all add: generate_file_key_length assms urlsafe_alphabet_def emoji_key_def nl_def)
  then show ?thesis by simp
qed

lemma ex_keys_differ: "generate_file_key rnd_A \<noteq> generate_file_key rnd_B"
  by (simp add: generate_file_key_eq rnd_A_def rnd_B_def urlsafe_alphabet_def)

section \<open>Properties of stripping\<close>

lemma strip_prefixes_None:
  "find (\<lambda>w. w \<noteq> [] \<and> prefix w s) ws = None \<Longrightarrow> strip_prefixes ws s = s"
  by (subst strip_prefixes.simps) simp

lemma strip_prefixes_Some:
  "find (\<lambda>w. w \<noteq> [] \<and> prefix w s) ws = Some w \<Longrightarrow>
   strip_prefixes ws s = strip_prefixes ws (drop (length w) s)"
  by (subst strip_prefixes.simps) simp

lemma strip_prefixes_no_prefix:
  "w \<in> set ws \<Longrightarrow> w \<noteq> [] \<Longrightarrow> \<not> prefix w (strip_prefixes ws s)"
proof (induction ws s rule: strip_prefixes.induct)
  case (1 ws s)
  show ?case
  proof (cases "find (\<lambda>w. w \<noteq> [] \<and> prefix w s) ws")
    case None
    then show ?thesis
      using "1.prems" by (auto simp: strip_prefixes_None find_None_iff)
  next
    case (Some a)
    then show ?thesis
      using "1.IH" [OF Some] "1.prems" by (simp add: strip_prefixes_Some)
  qed
qed

lemma strip_prefixes_decomp:
  "\<exists>ls. set ls \<subseteq> set ws \<and> s = concat ls @ strip_prefixes ws s"
proof (induction ws s rule: strip_prefixes.induct)
  case (1 ws s)
  show ?case
  proof (cases "find (\<lambda>w. w \<noteq> [] \<and> prefix w s) ws")
    case None
    then have "set [] \<subseteq> set ws \<and> s = concat [] @ strip_prefixes ws s"
      by (simp add: strip_prefixes_None)
    then show ?thesis by blast
  next
    case (Some a)
    then have a: "a \<in> set ws" "prefix a s"
      by (auto simp: find_Some_iff)
    from "1.IH" [OF Some] obtain ls where ls: "set ls \<subseteq> set ws"
      "drop (length a) s = concat ls @ strip_prefixes ws (drop (length a) s)"
      by blast
    from a(2) have "s = a @ drop (length a) s"
      by (auto simp: prefix_def)
    with ls(2) have "s = concat (a # ls) @ strip_prefixes ws s"
      by (simp add: strip_prefixes_Some [OF Some])
    moreover have "set (a # ls) \<subseteq> set ws"
      using a(1) ls(1) by simp
    ultimately show ?thesis by blast
  qed
qed

lemma whitespace_nonempty: "[] \<notin> set whitespace"
  by (simp add: whitespace_def)

lemma whitespace_prefix_free:
  "\<forall>a\<in>set whitespace. \<forall>b\<in>set whitespace. prefix a b \<longrightarrow> a = b"
  by (simp add: whitespace_def)

lemma strip_prefixes_concat:
  assumes ne: "[] \<notin> set ws"
    and pf: "\<forall>a\<in>set ws. \<forall>b\<in>set ws. prefix a b \<longrightarrow> a = b"
  shows "set xs \<subseteq> set ws \<Longrightarrow> strip_prefixes ws (concat xs) = []"
proof (induction xs)
  case Nil
  have "find (\<lambda>w. w \<noteq> [] \<and> prefix w []) ws = None"
    by (auto simp: find_None_iff)
  then show ?case
    by (simp add: strip_prefixes_None)
next
  case (Cons x xs)
  then have x: "x \<in> set ws" "x \<noteq> []"
    using ne by auto
  then have "\<exists>w. find (\<lambda>w. w \<noteq> [] \<and> prefix w (x @ concat xs)) ws = Some w"
    by (cases "find (\<lambda>w. w \<noteq> [] \<and> prefix w (x @ concat xs)) ws") (auto simp: find_None_iff)
  then obtain w where w: "find (\<lambda>w. w \<noteq> [] \<and> prefix w (x @ concat xs)) ws = Some w"
    by blast
  then have "w \<in> set ws" "prefix w (x @ concat xs)"
    by (auto simp: find_Some_iff)
  moreover have "prefix x (x @ concat xs)"
    by simp
  ultimately have "prefix w x \<or> prefix x w"
    using prefix_same_cases by blast
  then have "w = x"
    using pf x(1) \<open>w \<in> set ws\<close> by blast
  then have "strip_prefixes ws (concat (x # xs)) = strip_prefixes ws (concat xs)"
    using strip_prefixes_Some [OF w] by simp
  then show ?case
    using Cons by simp
qed

lemma strip_whitespace_only: "set xs \<subseteq> set whitespace \<Longrightarrow> strip (concat xs) = []"
proof -
  assume "set xs \<subseteq> set whitespace"
  then have "lstrip (concat xs) = []"
    unfolding lstrip_def
    by (rule strip_prefixes_concat [OF whitespace_nonempty whitespace_prefix_free])
  moreover have "find (\<lambda>w. w \<noteq> [] \<and> prefix w []) (map rev whitespace) = None"
    by (auto simp: find_None_iff)
  ultimately show ?thesis
    by (simp add: strip_def rstrip_def strip_prefixes_None)
qed

lemma strip_no_whitespace_ends:
  assumes "w \<in> set whitespace"
  shows "\<not> prefix w (strip t) \<and> \<not> suffix w (strip t)"
proof
  have w: "w \<noteq> []"
    using assms whitespace_nonempty by auto
  obtain rs where rs: "rev (lstrip t) = concat rs @ strip_prefixes (map rev whitespace) (rev (lstrip t))"
    using strip_prefixes_decomp [of "map rev whitespace" "rev (lstrip t)"] by blast
  have "lstrip t = rev (rev (lstrip t))"
    by simp
  also have "\<dots> = strip t @ rev (concat rs)"
    by (subst rs) (simp add: strip_def rstrip_def)
  finally have "prefix (strip t) (lstrip t)"
    by (metis prefixI)
  moreover have "\<not> prefix w (lstrip t)"
    unfolding lstrip_def using assms w by (rule strip_prefixes_no_prefix)
  ultimately show "\<not> prefix w (strip t)"
    using prefix_order.trans by blast
  have "rev w \<in> set (map rev whitespace)" "rev w \<noteq> []"
    using assms w by simp_all
  then have "\<not> prefix (rev w) (strip_prefixes (map rev whitespace) (rev (lstrip t)))"
    by (rule strip_prefixes_no_prefix)
  then show "\<not> suffix w (strip t)"
    by (simp add: strip_def rstrip_def suffix_to_prefix)
qed

lemma strip_decomp:
  "\<exists>ls rs. set ls \<subseteq> set whitespace \<and> set rs \<subseteq> set whitespace
     \<and> t = concat ls @ strip t @ concat rs"
proof -
  obtain ls where ls: "set ls \<subseteq> set whitespace" "t = concat ls @ lstrip t"
    using strip_prefixes_decomp [of whitespace t] unfolding lstrip_def by blast
  obtain rs where rs: "set rs \<subseteq> set (map rev whitespace)"
    "rev (lstrip t) = concat rs @ strip_prefixes (map rev whitespace) (rev (lstrip t))"
    using strip_prefixes_decomp [of "map rev whitespace" "rev (lstrip t)"] by blast
  have "lstrip t = rev (rev (lstrip t))"
    by simp
  also have "\<dots> = strip t @ rev (concat rs)"
    by (subst rs(2)) (simp add: strip_def rstrip_def)
  also have "rev (concat rs) = concat (map rev (rev rs))"
    by (simp add: rev_concat)
  finally have "lstrip t = strip t @ concat (map rev (rev rs))" .
  with ls(2) have "t = concat ls @ strip t @ concat (map rev (rev rs))"
    by simp
  moreover have "set (map rev (rev rs)) \<subseteq> set whitespace"
    using rs(1) by auto
  ultimately show ?thesis
    using ls(1) by blast
qed

lemma strip_empty: "strip [] = []"
  using strip_whitespace_only [of "[]"] by simp

lemma strip_secret: "strip ''secret'' = ''secret''"
  by (simp add: strip_def rstrip_def lstrip_def strip_prefixes.simps whitespace_def)

lemma strip_padded_secret: "strip ''  secret '' = ''secret''"
  by (simp add: strip_def rstrip_def lstrip_def strip_prefixes.simps whitespace_def)

section \<open>The handlers on a platform that accepts every call\<close>

lemma no_fault_tl: "True \<notin> set fs \<Longrightarrow> (True \<in> set (tl fs)) = False"
  by (cases fs) auto

lemma platform_call_reliable:
  "True \<notin> set (faults w) \<Longrightarrow>
   platform_call a w = (Inr (), w\<lparr>outbox := outbox w @ [a], faults := tl (faults w)\<rparr>)"
  by (cases "faults w") (auto simp: platform_call_def)

lemmas comp_defs = bindE_def try_except_def modify_def returnE_def raiseE_def from_format_def

lemma reliable_run:
  "reliable w \<Longrightarrow> reliable (w\<lparr>storage := st, state_manager := sm, outbox := ob, faults := tl (tl (tl (faults w)))\<rparr>)"
  "reliable w \<Longrightarrow> reliable (w\<lparr>state_manager := sm, outbox := ob, faults := tl (tl (tl (faults w)))\<rparr>)"
  "reliable w \<Longrightarrow> reliable (w\<lparr>state_manager := sm, outbox := ob, faults := tl (tl (faults w))\<rparr>)"
  "reliable w \<Longrightarrow> reliable (w\<lparr>outbox := ob, faults := tl (faults w)\<rparr>)"
  by (simp_all add: reliable_def no_fault_tl)

lemma get_state_Some: "states uid = Some st \<Longrightarrow> get_state states uid = (st, states)"
  by (simp add: get_state_def)

lemma truthy_Some: "truthy (Some k) = (k \<noteq> [])"
  by (simp add: truthy_def)

lemma clear_state_Some: "states uid = Some st \<Longrightarrow> clear_state states uid = states(uid := None)"
  by (auto simp: clear_state_def)

lemma set_flags_Some:
  "states uid = Some st \<Longrightarrow>
   set_password_choice (set_awaiting_password states uid True) uid ''yes''
     = states(uid \<mapsto> st\<lparr>awaiting_password := True, password_choice := Some ''yes''\<rparr>)"
  by (simp add: set_password_choice_def set_awaiting_password_def get_state_def)

lemma file_upload_handler_run:
  assumes "reliable w" and "extract_file m = Some (fid, fname, fsize)"
  shows "file_upload_handler rnd now sid m w =
     (Inr (), w\<lparr>storage := snd (store_file (storage w)
                   (FileMetadata_init now (generate_file_key rnd) fid fname fsize (from_user m) sid False None None)),
                state_manager := set_file_info (state_manager w) (from_user m) (generate_file_key rnd) fid fname fsize,
                outbox := outbox w @ [ReplyText (from_user m) (emoji_hourglass @ '' Processing your file...''),
                     ForwardMessages (STORAGE_CHANNEL_ID w) (from_user m) (message_id m),
                     EditFileReceived (from_user m) fname fsize (generate_file_key rnd) password_choice_keyboard],
                faults := tl (tl (tl (faults w)))\<rparr>)"
  using assms
  by (simp add: file_upload_handler_def reliable_def comp_defs platform_call_reliable no_fault_tl Let_def)

lemma upload_then_state:
  assumes "reliable w" and "extract_file m = Some (fid, fname, fsize)"
  shows "reliable (snd (file_upload_handler rnd now sid m w))"
    and "state_manager (snd (file_upload_handler rnd now sid m w)) (from_user m)
       = Some ((fst (get_state (state_manager w) (from_user m)))
         \<lparr>s_file_key := Some (generate_file_key rnd), s_file_id := Some fid,
          s_file_name := Some fname, s_file_size := Some fsize\<rparr>)"
    and "get_file (storage (snd (file_upload_handler rnd now sid m w))) (generate_file_key rnd)
       = Some (FileMetadata_init now (generate_file_key rnd) fid fname fsize (from_user m) sid
            False None None)"
    and "bot_username (snd (file_upload_handler rnd now sid m w)) = bot_username w"
  using assms(1)
  by (simp_all add: file_upload_handler_run [OF assms] reliable_run set_file_info_def get_state_def
      Let_def get_file_def data_store_file FileMetadata_init_def split: option.splits)

lemma deliver_links_callback_run:
  assumes "reliable w" and "lookup_file (storage w) (s_file_key state) = Some md"
  shows "deliver_links uid state has_pw pw FromCallback w =
     (Inr (), w\<lparr>state_manager := clear_state (state_manager w) uid,
                outbox := outbox w @ [GetMe, EditText uid (links_message_for w state md has_pw),
                     Answer uid (Some (emoji_check @ '' Links generated!'')) False],
                faults := tl (tl (tl (faults w)))\<rparr>)"
  using assms
  by (simp add: deliver_links_def reliable_def comp_defs platform_call_reliable no_fault_tl
      generate_stream_link_eq generate_download_link_eq generate_tg_link_eq links_message_for_def)

lemma deliver_links_message_run:
  assumes "reliable w" and "lookup_file (storage w) (s_file_key state) = Some md"
  shows "deliver_links uid state has_pw pw FromMessage w =
     (Inr (), w\<lparr>state_manager := clear_state (state_manager w) uid,
                outbox := outbox w @ [GetMe, ReplyText uid (links_message_for w state md has_pw)],
                faults := tl (tl (faults w))\<rparr>)"
  using assms
  by (simp add: deliver_links_def reliable_def comp_defs platform_call_reliable no_fault_tl
      generate_stream_link_eq generate_download_link_eq generate_tg_link_eq links_message_for_def)

lemma deliver_links_not_found_run:
  assumes "reliable w" and "lookup_file (storage w) (s_file_key state) = None"
  shows "deliver_links uid state has_pw pw orig w =
     (Inr (), w\<lparr>outbox := outbox w @
                  [case orig of
                     FromCallback \<Rightarrow> Answer uid (Some (emoji_cross @ '' File not found'')) True
                   | FromMessage \<Rightarrow> ReplyText uid (emoji_cross @ '' File not found'')],
                faults := tl (faults w)\<rparr>)"
  using assms
  by (cases orig)
     (simp_all add: deliver_links_def reliable_def comp_defs platform_call_reliable no_fault_tl
      generate_stream_link_eq generate_download_link_eq report_def)

lemma password_choice_callback_no:
  assumes "state_manager w uid = Some state" and "s_file_key state = Some k" and "k \<noteq> []"
  shows "password_choice_callback uid ''pwd_no'' w =
     try_except (deliver_links uid state False None FromCallback)
       (\<lambda>e. case e of
          RpcError \<Rightarrow> platform_call
            (Answer uid (Some (emoji_cross @ '' Error processing choice'')) True)
        | _ \<Rightarrow> platform_call
            (Answer uid (Some (emoji_cross @ '' Unexpected error'')) True)) w"
  using assms
  by (simp add: password_choice_callback_def get_state_Some truthy_Some)

lemma password_choice_callback_no_run:
  assumes "reliable w" and "state_manager w uid = Some state" and "s_file_key state = Some k"
    and "k \<noteq> []" and "get_file (storage w) k = Some md"
  shows "password_choice_callback uid ''pwd_no'' w =
     (Inr (), w\<lparr>state_manager := (state_manager w)(uid := None),
                outbox := outbox w @ [GetMe, EditText uid (links_message_for w state md False),
                     Answer uid (Some (emoji_check @ '' Links generated!'')) False],
                faults := tl (tl (tl (faults w)))\<rparr>)"
proof -
  have "lookup_file (storage w) (s_file_key state) = Some md"
    using assms(3,5) by (simp add: lookup_file_def)
  from deliver_links_callback_run [OF assms(1) this, of uid False None]
  show ?thesis
    unfolding password_choice_callback_no [OF assms(2-4)]
    using clear_state_Some [of "state_manager w" uid state] assms(2)
    by (simp add: try_except_def)
qed

lemma password_choice_callback_yes:
  assumes "state_manager w uid = Some state" and "s_file_key state = Some k" and "k \<noteq> []"
  shows "password_choice_callback uid ''pwd_yes'' w =
     try_except
       (bindE (platform_call (EditText uid
                 (emoji_locked_key @ '' Enter a password for your file:'' @ nl @ nl
                    @ ''Just send the password as a message.'')))
          (\<lambda>_. platform_call (Answer uid None False)))
       (\<lambda>e. case e of
          RpcError \<Rightarrow> platform_call
            (Answer uid (Some (emoji_cross @ '' Error processing choice'')) True)
        | _ \<Rightarrow> platform_call
            (Answer uid (Some (emoji_cross @ '' Unexpected error'')) True))
       (w\<lparr>state_manager := (state_manager w)
            (uid \<mapsto> state\<lparr>awaiting_password := True, password_choice := Some ''yes''\<rparr>)\<rparr>)"
  using assms set_flags_Some [of "state_manager w" uid state]
  by (simp add: password_choice_callback_def get_state_Some truthy_Some try_except_def bindE_def
      modify_def)

lemma password_choice_callback_yes_run:
  assumes "reliable w" and "state_manager w uid = Some state" and "s_file_key state = Some k"
    and "k \<noteq> []"
  shows "password_choice_callback uid ''pwd_yes'' w =
     (Inr (), w\<lparr>state_manager := (state_manager w)
                  (uid \<mapsto> state\<lparr>awaiting_password := True, password_choice := Some ''yes''\<rparr>),
                outbox := outbox w @
                  [EditText uid (emoji_locked_key @ '' Enter a password for your file:'' @ nl @ nl
                     @ ''Just send the password as a message.''),
                   Answer uid None False],
                faults := tl (tl (faults w))\<rparr>)"
  using assms(1)
  by (simp add: password_choice_callback_yes [OF assms(2-4)] reliable_def comp_defs
      platform_call_reliable no_fault_tl)

lemma password_input_handler_accept:
  assumes "state_manager w uid = Some state" and "awaiting_password state" and "strip t \<noteq> []"
  shows "password_input_handler uid (Some t) w =
     try_except
       (bindE (modify (\<lambda>w.
           (case s_file_key state of
              None \<Rightarrow> w
            | Some k \<Rightarrow> w\<lparr>storage := snd (update_password (storage w) k (strip t))\<rparr>)))
          (\<lambda>_. deliver_links uid state True (Some (strip t)) FromMessage))
       (\<lambda>e. platform_call
          (ReplyText uid (emoji_cross @ '' Error setting password. Please try again.''))) w"
  using assms
  by (simp add: password_input_handler_def get_state_Some Let_def)

lemma password_input_handler_accept_run:
  assumes "reliable w" and "state_manager w uid = Some state" and "awaiting_password state"
    and "strip t \<noteq> []" and "s_file_key state = Some k" and "data (storage w) k = Some md"
  shows "password_input_handler uid (Some t) w =
     (Inr (), w\<lparr>storage := snd (update_password (storage w) k (strip t)),
                state_manager := (state_manager w)(uid := None),
                outbox := outbox w @ [GetMe, ReplyText uid (links_message_for w state md True)],
                faults := tl (tl (faults w))\<rparr>)"
proof -
  let ?w = "w\<lparr>storage := snd (update_password (storage w) k (strip t))\<rparr>"
  have r: "reliable ?w"
    using assms(1) by (simp add: reliable_def)
  have "lookup_file (storage ?w) (s_file_key state)
      = Some (md\<lparr>has_password := True, password := Some (strip t)\<rparr>)"
    using assms(5,6) by (simp add: lookup_file_def update_password_present)
  from deliver_links_message_run [OF r this, of uid True "Some (strip t)"]
  show ?thesis
    unfolding password_input_handler_accept [OF assms(2-4)]
    using assms(5) clear_state_Some [of "state_manager w" uid state] assms(2)
    by (simp add: try_except_def bindE_def modify_def links_message_for_def)
qed

lemma password_input_handler_reject:
  assumes "state_manager w uid = Some state" and "awaiting_password state" and "strip t = []"
  shows "password_input_handler uid (Some t) w =
     platform_call (ReplyText uid (emoji_cross @ '' Password cannot be empty. Please try again:'')) w"
  using assms
  by (simp add: password_input_handler_def get_state_Some Let_def)

section \<open>What the handlers maintain on every platform\<close>

lemma platform_call_frame:
  "state_manager (snd (platform_call a w)) = state_manager w
   \<and> storage (snd (platform_call a w)) = storage w"
  by (simp add: platform_call_def split: list.splits)

lemma report_frame:
  "state_manager (snd (report orig uid t w)) = state_manager w
   \<and> storage (snd (report orig uid t w)) = storage w"
  by (simp add: report_def platform_call_frame split: origin.splits)

lemma try_except_frame:
  assumes "state_manager (snd (f w)) = state_manager w \<and> storage (snd (f w)) = storage w"
    and "\<And>e w'. state_manager (snd (h e w')) = state_manager w' \<and> storage (snd (h e w')) = storage w'"
  shows "state_manager (snd (try_except f h w)) = state_manager w
     \<and> storage (snd (try_except f h w)) = storage w"
proof (cases "f w")
  case (Pair r w')
  then show ?thesis
    using assms(1) assms(2) [of _ w']
    by (cases r) (simp_all add: try_except_def)
qed

lemma deliver_links_not_found_frame:
  assumes "lookup_file (storage w) (s_file_key state) = None"
  shows "state_manager (snd (deliver_links uid state has_pw pw orig w)) = state_manager w
     \<and> storage (snd (deliver_links uid state has_pw pw orig w)) = storage w"
proof -
  obtain r w' where r: "report orig uid (emoji_cross @ '' File not found'') w = (r, w')"
    by (cases "report orig uid (emoji_cross @ '' File not found'') w")
  have w': "state_manager w' = state_manager w \<and> storage w' = storage w"
    using report_frame [of orig uid "emoji_cross @ '' File not found''" w] r by simp
  show ?thesis
    using assms r w' report_frame [of orig uid _ w']
    by (cases r)
       (simp_all add: deliver_links_def comp_defs generate_stream_link_eq generate_download_link_eq)
qed

lemma preserves_bindE:
  assumes "preserves I f" and "\<And>x. preserves I (g x)"
  shows "preserves I (bindE f g)"
  unfolding preserves_def
proof (intro allI impI)
  fix w assume "I w"
  then have "I (snd (f w))"
    using assms(1) by (simp add: preserves_def)
  then show "I (snd (bindE f g w))"
    using assms(2) by (cases "f w"; cases "fst (f w)") (auto simp: bindE_def preserves_def)
qed

lemma preserves_try_except:
  assumes "preserves I f" and "\<And>e. preserves I (h e)"
  shows "preserves I (try_except f h)"
  unfolding preserves_def
proof (intro allI impI)
  fix w assume "I w"
  then have "I (snd (f w))"
    using assms(1) by (simp add: preserves_def)
  then show "I (snd (try_except f h w))"
    using assms(2) by (cases "f w"; cases "fst (f w)") (auto simp: try_except_def preserves_def)
qed

lemma preserves_pure:
  "preserves I (returnE x)" "preserves I (raiseE e)" "preserves I (from_format r)"
  by (auto simp: preserves_def returnE_def raiseE_def from_format_def split: option.splits)

lemma preserves_case_option:
  assumes "preserves I A" and "\<And>md. preserves I (B md)"
  shows "preserves I (\<lambda>w. case F w of None \<Rightarrow> A w | Some md \<Rightarrow> B md w)"
  using assms by (auto simp: preserves_def split: option.splits)

lemma preserves_from_format_read: "preserves I (\<lambda>w. from_format (F w) w)"
  by (auto simp: preserves_def returnE_def raiseE_def from_format_def split: option.splits)

lemma preserves_case_origin:
  assumes "preserves I a" and "preserves I b"
  shows "preserves I (case orig of FromCallback \<Rightarrow> a | FromMessage \<Rightarrow> b)"
  using assms by (cases orig) simp_all

lemma preserves_report:
  assumes "\<And>a. preserves I (platform_call a)"
  shows "preserves I (report orig uid t)"
  using assms by (cases orig) (simp_all add: report_def)

lemma deliver_links_preserves:
  assumes pc: "\<And>a. preserves I (platform_call a)"
    and cl: "preserves I (modify (\<lambda>w. w\<lparr>state_manager := clear_state (state_manager w) uid\<rparr>))"
  shows "preserves I (deliver_links uid state has_pw pw orig)"
  unfolding deliver_links_def
  by (intro preserves_try_except preserves_bindE preserves_pure preserves_case_option
      preserves_from_format_read preserves_case_origin preserves_report pc cl)

lemma platform_call_preserves:
  "preserves (\<lambda>w. P (state_manager w) (storage w)) (platform_call a)"
  by (simp add: preserves_def platform_call_def split: list.splits)

lemma exn_handler_preserves:
  assumes "\<And>a. preserves I (platform_call a)"
  shows "preserves I (case e of RpcError \<Rightarrow> platform_call a1 | KeyError \<Rightarrow> platform_call a2
     | AttributeError \<Rightarrow> platform_call a3)"
  using assms by (cases e) simp_all

section \<open>The example run\<close>

lemma ex_upload_A_file: "extract_file ex_upload_A = Some (''fidA'', ''a.pdf'', 10)"
  by (simp add: extract_file_def ex_upload_A_def or_default_def truthy_def)

lemma ex_upload_B_file: "extract_file ex_upload_B = Some (''fidB'', ''video_uniqueB1'', 20)"
  by (simp add: extract_file_def ex_upload_B_def or_default_def truthy_def)

lemma ex_start_reliable: "reliable ex_start"
  by (simp add: ex_start_def reliable_def)

lemma ex_pending:
  "reliable (snd (file_upload_handler rnd_A ''t1'' 42 ex_upload_A ex_start))"
  "state_manager (snd (file_upload_handler rnd_A ''t1'' 42 ex_upload_A ex_start)) 7
     = Some ((UserState_init 7)\<lparr>s_file_key := Some (generate_file_key rnd_A),
          s_file_id := Some ''fidA'', s_file_name := Some ''a.pdf'', s_file_size := Some 10\<rparr>)"
  "get_file (storage (snd (file_upload_handler rnd_A ''t1'' 42 ex_upload_A ex_start)))
       (generate_file_key rnd_A)
     = Some (FileMetadata_init ''t1'' (generate_file_key rnd_A) ''fidA'' ''a.pdf'' 10 7 42
            False None None)"
  using upload_then_state [OF ex_start_reliable ex_upload_A_file, of rnd_A "''t1''" 42]
  by (simp_all add: ex_upload_A_def ex_start_def get_state_def)

lemma ex_pending_key:
  "s_file_key ((UserState_init 7)\<lparr>s_file_key := Some (generate_file_key rnd_A),
          s_file_id := Some ''fidA'', s_file_name := Some ''a.pdf'', s_file_size := Some 10\<rparr>)
     = Some (generate_file_key rnd_A)"
  by simp

section \<open>Properties of the conversation\<close>

text \<open>
  C1: with a platform that accepts the calls, the no-password press of a user whose
  session names a non-empty key \<open>k\<close> held by the store edits the prompt into the display
  block built from \<open>k\<close> (its key line and its links carry \<open>k\<close>), and removes the session, so
  that the next \<open>get_state\<close> creates a fresh one. In particular this holds right after an
  upload, for the key issued to it.
\<close>

theorem no_password_delivers_key:
  assumes "reliable w"
  shows "(state_manager w uid = Some state \<longrightarrow> s_file_key state = Some k \<longrightarrow> k \<noteq> [] \<longrightarrow>
          get_file (storage w) k = Some md \<longrightarrow>
          (let w' = snd (password_choice_callback uid ''pwd_no'' w);
               msg = format_links_message (str_opt (s_file_name state)) k False
                       (Some (''https://stream.example.com/'' @ k))
                       (Some (''https://download.example.com/'' @ k))
                       (Some (''https://t.me/'' @ bot_username w @ ''/''
                                @ str_int (message_id_in_storage md)))
           in outbox w' = outbox w @ [GetMe, EditText uid msg,
                              Answer uid (Some (emoji_check @ '' Links generated!'')) False]
              \<and> sublist k msg
              \<and> sublist (emoji_key @ '' **File Key:** `'' @ k @ ''`'' @ nl) msg
              \<and> state_manager w' uid = None
              \<and> fst (get_state (state_manager w') uid) = UserState_init uid))
     \<and> (extract_file m = Some (fid, fname, fsize) \<longrightarrow>
          (let k = generate_file_key rnd;
               w1 = snd (file_upload_handler rnd now sid m w);
               w2 = snd (password_choice_callback (from_user m) ''pwd_no'' w1);
               msg = format_links_message fname k False
                       (Some (''https://stream.example.com/'' @ k))
                       (Some (''https://download.example.com/'' @ k))
                       (Some (''https://t.me/'' @ bot_username w @ ''/'' @ str_int sid))
           in outbox w2 = outbox w1 @ [GetMe, EditText (from_user m) msg,
                              Answer (from_user m) (Some (emoji_check @ '' Links generated!'')) False]
              \<and> sublist k msg
              \<and> sublist (emoji_key @ '' **File Key:** `'' @ k @ ''`'' @ nl) msg
              \<and> state_manager w2 (from_user m) = None
              \<and> fst (get_state (state_manager w2) (from_user m)) = UserState_init (from_user m)))"
proof -
  have general: "let w' = snd (password_choice_callback uid ''pwd_no'' w);
               msg = format_links_message (str_opt (s_file_name state)) k False
                       (Some (''https://stream.example.com/'' @ k))
                       (Some (''https://download.example.com/'' @ k))
                       (Some (''https://t.me/'' @ bot_username w @ ''/''
                                @ str_int (message_id_in_storage md)))
           in outbox w' = outbox w @ [GetMe, EditText uid msg,
                              Answer uid (Some (emoji_check @ '' Links generated!'')) False]
              \<and> sublist k msg
              \<and> sublist (emoji_key @ '' **File Key:** `'' @ k @ ''`'' @ nl) msg
              \<and> state_manager w' uid = None
              \<and> fst (get_state (state_manager w') uid) = UserState_init uid"
    if "reliable w" "state_manager w uid = Some state" "s_file_key state = Some k" "k \<noteq> []"
      "get_file (storage w) k = Some md" for w uid state k md
  proof -
    note run = password_choice_callback_no_run [OF that]
    have msg: "links_message_for w state md False
        = format_links_message (str_opt (s_file_name state)) k False
                       (Some (''https://stream.example.com/'' @ k))
                       (Some (''https://download.example.com/'' @ k))
                       (Some (''https://t.me/'' @ bot_username w @ ''/''
                                @ str_int (message_id_in_storage md)))"
      using that(3) by (simp add: links_message_for_def str_opt_def)
    show ?thesis
      unfolding Let_def
    proof (intro conjI)
      show "outbox (snd (password_choice_callback uid ''pwd_no'' w)) =
          outbox w @ [GetMe, EditText uid (format_links_message (str_opt (s_file_name state)) k False
                       (Some (''https://stream.example.com/'' @ k))
                       (Some (''https://download.example.com/'' @ k))
                       (Some (''https://t.me/'' @ bot_username w @ ''/''
                                @ str_int (message_id_in_storage md)))),
                   Answer uid (Some (emoji_check @ '' Links generated!'')) False]"
        unfolding msg [symmetric] by (simp add: run)
      show "state_manager (snd (password_choice_callback uid ''pwd_no'' w)) uid = None"
        by (simp add: run)
      show "fst (get_state (state_manager (snd (password_choice_callback uid ''pwd_no'' w))) uid)
          = UserState_init uid"
        by (simp add: run get_state_def)
    qed (rule msg_key msg_key_line)+
  qed
  have seq: "let k = generate_file_key rnd;
               w1 = snd (file_upload_handler rnd now sid m w);
               w2 = snd (password_choice_callback (from_user m) ''pwd_no'' w1);
               msg = format_links_message fname k False
                       (Some (''https://stream.example.com/'' @ k))
                       (Some (''https://download.example.com/'' @ k))
                       (Some (''https://t.me/'' @ bot_username w @ ''/'' @ str_int sid))
           in outbox w2 = outbox w1 @ [GetMe, EditText (from_user m) msg,
                              Answer (from_user m) (Some (emoji_check @ '' Links generated!'')) False]
              \<and> sublist k msg
              \<and> sublist (emoji_key @ '' **File Key:** `'' @ k @ ''`'' @ nl) msg
              \<and> state_manager w2 (from_user m) = None
              \<and> fst (get_state (state_manager w2) (from_user m)) = UserState_init (from_user m)"
    if ex: "extract_file m = Some (fid, fname, fsize)"
  proof -
    note w1 = upload_then_state [OF assms ex, of rnd now sid]
    have k: "s_file_key ((fst (get_state (state_manager w) (from_user m)))
         \<lparr>s_file_key := Some (generate_file_key rnd), s_file_id := Some fid,
          s_file_name := Some fname, s_file_size := Some fsize\<rparr>) = Some (generate_file_key rnd)"
      by simp
    from general [OF w1(1) w1(2) k generate_file_key_nonempty w1(3)]
    show ?thesis
      by (simp add: Let_def w1(4) str_opt_def FileMetadata_init_def)
  qed
  from general [OF assms] seq show ?thesis
    by blast
qed

theorem no_password_delivers_key_witness:
  "reliable ex_start \<and> extract_file ex_upload_A = Some (''fidA'', ''a.pdf'', 10)
   \<and> outbox (snd (password_choice_callback 7 ''pwd_no''
         (snd (file_upload_handler rnd_A ''t1'' 42 ex_upload_A ex_start))))
      = outbox (snd (file_upload_handler rnd_A ''t1'' 42 ex_upload_A ex_start))
        @ [GetMe,
           EditText 7 (format_links_message ''a.pdf'' (generate_file_key rnd_A) False
             (Some (''https://stream.example.com/'' @ generate_file_key rnd_A))
             (Some (''https://download.example.com/'' @ generate_file_key rnd_A))
             (Some (''https://t.me/'' @ ''mybot'' @ ''/'' @ str_int 42))),
           Answer 7 (Some (emoji_check @ '' Links generated!'')) False]
   \<and> state_manager (snd (password_choice_callback 7 ''pwd_no''
         (snd (file_upload_handler rnd_A ''t1'' 42 ex_upload_A ex_start)))) 7 = None"
proof -
  have u: "from_user ex_upload_A = 7" "bot_username ex_start = ''mybot''"
    by (simp_all add: ex_upload_A_def ex_start_def)
  from no_password_delivers_key [OF ex_start_reliable,
      of _ _ _ _ ex_upload_A "''fidA''" "''a.pdf''" 10 rnd_A "''t1''" 42, THEN conjunct2]
    ex_upload_A_file ex_start_reliable
  show ?thesis
    unfolding Let_def u by blast
qed

text \<open>
  C2: with a platform that accepts the calls, the run of an upload, the set-password
  press, the empty text and the text \<open>secret\<close> ends with the record of the upload
  protected by the password \<open>secret\<close> and with the session of the user removed; the
  empty text is answered by the re-prompt and leaves the sessions (\<open>awaiting_password\<close>
  included) and the store as they were.
\<close>

theorem set_password_flow:
  assumes "reliable w" and "extract_file m = Some (fid, fname, fsize)"
  shows "let u = from_user m;
             k = generate_file_key rnd;
             w1 = snd (file_upload_handler rnd now sid m w);
             w2 = snd (password_choice_callback u ''pwd_yes'' w1);
             w3 = snd (password_input_handler u (Some []) w2);
             w4 = snd (password_input_handler u (Some ''secret'') w3)
         in get_file (storage w4) k
              = Some ((FileMetadata_init now k fid fname fsize u sid False None None)
                        \<lparr>has_password := True, password := Some ''secret''\<rparr>)
            \<and> state_manager w4 u = None
            \<and> fst (get_state (state_manager w4) u) = UserState_init u
            \<and> state_manager w3 = state_manager w2
            \<and> storage w3 = storage w2
            \<and> outbox w3 = outbox w2 @
                 [ReplyText u (emoji_cross @ '' Password cannot be empty. Please try again:'')]
            \<and> awaiting_password (fst (get_state (state_manager w2) u))
            \<and> awaiting_password (fst (get_state (state_manager w3) u))"
proof -
  let ?u = "from_user m"
  let ?k = "generate_file_key rnd"
  let ?w1 = "snd (file_upload_handler rnd now sid m w)"
  let ?w2 = "snd (password_choice_callback ?u ''pwd_yes'' ?w1)"
  let ?w3 = "snd (password_input_handler ?u (Some []) ?w2)"
  let ?w4 = "snd (password_input_handler ?u (Some ''secret'') ?w3)"
  let ?s1 = "(fst (get_state (state_manager w) ?u))
         \<lparr>s_file_key := Some ?k, s_file_id := Some fid,
          s_file_name := Some fname, s_file_size := Some fsize\<rparr>"
  let ?s2 = "?s1\<lparr>awaiting_password := True, password_choice := Some ''yes''\<rparr>"
  let ?md = "FileMetadata_init now ?k fid fname fsize ?u sid False None None"
  note w1 = upload_then_state [OF assms, of rnd now sid]
  have k1: "s_file_key ?s1 = Some ?k"
    by simp
  note run2 = password_choice_callback_yes_run [OF w1(1) w1(2) k1 generate_file_key_nonempty]
  have w2: "reliable ?w2" "state_manager ?w2 ?u = Some ?s2" "awaiting_password ?s2"
    "s_file_key ?s2 = Some ?k" "data (storage ?w2) ?k = Some ?md"
    using w1(1) w1(3) by (simp_all add: run2 reliable_run get_file_def)
  have run3: "password_input_handler ?u (Some []) ?w2
      = (Inr (), ?w2\<lparr>outbox := outbox ?w2 @
           [ReplyText ?u (emoji_cross @ '' Password cannot be empty. Please try again:'')],
           faults := tl (faults ?w2)\<rparr>)"
    unfolding password_input_handler_reject [OF w2(2) w2(3) strip_empty]
    using w2(1) by (simp add: platform_call_reliable reliable_def)
  have w3: "reliable ?w3" "state_manager ?w3 ?u = Some ?s2" "data (storage ?w3) ?k = Some ?md"
    "state_manager ?w3 = state_manager ?w2" "storage ?w3 = storage ?w2"
    "outbox ?w3 = outbox ?w2 @
           [ReplyText ?u (emoji_cross @ '' Password cannot be empty. Please try again:'')]"
    using w2 by (simp_all add: run3 reliable_run)
  have ne: "strip ''secret'' \<noteq> []"
    by (simp add: strip_secret)
  note run4 = password_input_handler_accept_run [OF w3(1) w3(2) w2(3) ne w2(4) w3(3)]
  have w4: "get_file (storage ?w4) ?k = Some (?md\<lparr>has_password := True, password := Some ''secret''\<rparr>)"
    "state_manager ?w4 ?u = None"
    using w3(3) by (simp_all add: run4 update_password_present strip_secret)
  have "fst (get_state (state_manager ?w4) ?u) = UserState_init ?u"
    using w4(2) by (simp add: get_state_def)
  moreover have "awaiting_password (fst (get_state (state_manager ?w2) ?u))"
    "awaiting_password (fst (get_state (state_manager ?w3) ?u))"
    using w2(2) w3(2) by (simp_all add: get_state_def)
  ultimately show ?thesis
    unfolding Let_def using w4 w3(4,5,6) by blast
qed

theorem set_password_flow_witness:
  "reliable ex_start \<and> extract_file ex_upload_A = Some (''fidA'', ''a.pdf'', 10)
   \<and> get_file (storage
         (snd (password_input_handler 7 (Some ''secret'')
           (snd (password_input_handler 7 (Some [])
             (snd (password_choice_callback 7 ''pwd_yes''
               (snd (file_upload_handler rnd_A ''t1'' 42 ex_upload_A ex_start)))))))))
         (generate_file_key rnd_A)
       = Some ((FileMetadata_init ''t1'' (generate_file_key rnd_A) ''fidA'' ''a.pdf'' 10 7 42
                  False None None)\<lparr>has_password := True, password := Some ''secret''\<rparr>)
   \<and> state_manager
         (snd (password_input_handler 7 (Some ''secret'')
           (snd (password_input_handler 7 (Some [])
             (snd (password_choice_callback 7 ''pwd_yes''
               (snd (file_upload_handler rnd_A ''t1'' 42 ex_upload_A ex_start)))))))) 7 = None"
proof -
  have u: "from_user ex_upload_A = 7"
    by (simp add: ex_upload_A_def)
  from set_password_flow [OF ex_start_reliable ex_upload_A_file, of rnd_A "''t1''" 42]
    ex_start_reliable ex_upload_A_file
  show ?thesis
    unfolding Let_def u by blast
qed

lemma strip_thanks: "strip ''thanks'' = ''thanks''"
  by (simp add: strip_def rstrip_def lstrip_def strip_prefixes.simps whitespace_def)

text \<open>
  C3, at the run of upload A, the set-password press and upload B of user 7 on a platform
  that accepts every call: the session has the file fields of upload B and is still
  awaiting a password with the choice \<open>"yes"\<close>, where the claim has \<open>False\<close> and no
  choice; the plain text \<open>thanks\<close> sent next, with no button pressed for B, becomes the
  password of B's record.
\<close>

theorem upload_while_awaiting_password:
  "map_option s_file_key (state_manager
      (snd (file_upload_handler rnd_B ''t2'' 43 ex_upload_B
        (snd (password_choice_callback 7 ''pwd_yes''
          (snd (file_upload_handler rnd_A ''t1'' 42 ex_upload_A ex_start)))))) 7)
     = Some (Some (generate_file_key rnd_B))
   \<and> map_option awaiting_password (state_manager
      (snd (file_upload_handler rnd_B ''t2'' 43 ex_upload_B
        (snd (password_choice_callback 7 ''pwd_yes''
          (snd (file_upload_handler rnd_A ''t1'' 42 ex_upload_A ex_start)))))) 7)
     = Some True
   \<and> map_option password_choice (state_manager
      (snd (file_upload_handler rnd_B ''t2'' 43 ex_upload_B
        (snd (password_choice_callback 7 ''pwd_yes''
          (snd (file_upload_handler rnd_A ''t1'' 42 ex_upload_A ex_start)))))) 7)
     = Some (Some ''yes'')
   \<and> map_option password (get_file (storage
      (snd (password_input_handler 7 (Some ''thanks'')
        (snd (file_upload_handler rnd_B ''t2'' 43 ex_upload_B
          (snd (password_choice_callback 7 ''pwd_yes''
            (snd (file_upload_handler rnd_A ''t1'' 42 ex_upload_A ex_start))))))))) 
      (generate_file_key rnd_B))
     = Some (Some ''thanks'')"
proof -
  let ?w1 = "snd (file_upload_handler rnd_A ''t1'' 42 ex_upload_A ex_start)"
  let ?w2 = "snd (password_choice_callback 7 ''pwd_yes'' ?w1)"
  let ?w3 = "snd (file_upload_handler rnd_B ''t2'' 43 ex_upload_B ?w2)"
  let ?w4 = "snd (password_input_handler 7 (Some ''thanks'') ?w3)"
  let ?s2 = "(UserState_init 7)\<lparr>s_file_key := Some (generate_file_key rnd_A),
          s_file_id := Some ''fidA'', s_file_name := Some ''a.pdf'', s_file_size := Some 10,
          awaiting_password := True, password_choice := Some ''yes''\<rparr>"
  let ?s3 = "?s2\<lparr>s_file_key := Some (generate_file_key rnd_B), s_file_id := Some ''fidB'',
          s_file_name := Some ''video_uniqueB1'', s_file_size := Some 20\<rparr>"
  let ?md = "FileMetadata_init ''t2'' (generate_file_key rnd_B) ''fidB'' ''video_uniqueB1'' 20 7 43
      False None None"
  have u: "from_user ex_upload_B = 7"
    by (simp add: ex_upload_B_def)
  note run2 = password_choice_callback_yes_run
    [OF ex_pending(1) ex_pending(2) ex_pending_key generate_file_key_nonempty]
  have w2: "reliable ?w2" "state_manager ?w2 7 = Some ?s2"
    using ex_pending(1) by (simp_all add: run2 reliable_run)
  note up = upload_then_state [OF w2(1) ex_upload_B_file, of rnd_B "''t2''" 43, unfolded u]
  have w3: "state_manager ?w3 7 = Some ?s3" "data (storage ?w3) (generate_file_key rnd_B) = Some ?md"
    using up(2,3) w2(2) by (simp_all add: get_state_def get_file_def)
  have s3: "awaiting_password ?s3" "s_file_key ?s3 = Some (generate_file_key rnd_B)"
    by simp_all
  have ne: "strip ''thanks'' \<noteq> []"
    by (simp add: strip_thanks)
  note run4 = password_input_handler_accept_run [OF up(1) w3(1) s3(1) ne s3(2) w3(2)]
  have "get_file (storage ?w4) (generate_file_key rnd_B)
      = Some (?md\<lparr>has_password := True, password := Some ''thanks''\<rparr>)"
    using w3(2) by (simp add: run4 update_password_present strip_thanks)
  then show ?thesis
    by (simp add: w3(1))
qed

text \<open>
  C4: with a platform that accepts the calls, after upload A, upload B of the same user
  and the no-password press, the four file fields of the session after upload B are
  those of upload B, and the block sent is the one built from B's name and key: its key
  line and its stream and download links contain B's key and, when the two keys
  differ, not A's key. The session is removed afterwards.
\<close>

theorem last_upload_wins:
  assumes "reliable w"
    and "extract_file mA = Some (fidA, fnameA, fsizeA)"
    and "extract_file mB = Some (fidB, fnameB, fsizeB)"
    and "from_user mB = from_user mA"
  shows "let u = from_user mA;
             kA = generate_file_key rndA;
             kB = generate_file_key rndB;
             w1 = snd (file_upload_handler rndA nowA sidA mA w);
             w2 = snd (file_upload_handler rndB nowB sidB mB w1);
             w3 = snd (password_choice_callback u ''pwd_no'' w2);
             stream = ''https://stream.example.com/'' @ kB;
             download = ''https://download.example.com/'' @ kB;
             msg = format_links_message fnameB kB False (Some stream) (Some download)
                     (Some (''https://t.me/'' @ bot_username w @ ''/'' @ str_int sidB))
         in fst (get_state (state_manager w2) u)
              = (fst (get_state (state_manager w) u))
                  \<lparr>s_file_key := Some kB, s_file_id := Some fidB,
                   s_file_name := Some fnameB, s_file_size := Some fsizeB\<rparr>
            \<and> outbox w3 = outbox w2 @ [GetMe, EditText u msg,
                              Answer u (Some (emoji_check @ '' Links generated!'')) False]
            \<and> sublist kB stream \<and> sublist kB download
            \<and> sublist (emoji_key @ '' **File Key:** `'' @ kB @ ''`'' @ nl) msg
            \<and> (kA \<noteq> kB \<longrightarrow>
                  \<not> sublist kA stream \<and> \<not> sublist kA download
                  \<and> \<not> sublist kA (emoji_key @ '' **File Key:** `'' @ kB @ ''`'' @ nl))
            \<and> state_manager w3 u = None"
proof -
  let ?u = "from_user mA"
  let ?kB = "generate_file_key rndB"
  let ?w1 = "snd (file_upload_handler rndA nowA sidA mA w)"
  let ?w2 = "snd (file_upload_handler rndB nowB sidB mB ?w1)"
  let ?w3 = "snd (password_choice_callback ?u ''pwd_no'' ?w2)"
  let ?sB = "(fst (get_state (state_manager w) ?u))
                  \<lparr>s_file_key := Some ?kB, s_file_id := Some fidB,
                   s_file_name := Some fnameB, s_file_size := Some fsizeB\<rparr>"
  let ?md = "FileMetadata_init nowB ?kB fidB fnameB fsizeB ?u sidB False None None"
  note w1 = upload_then_state [OF assms(1,2), of rndA nowA sidA]
  note w2 = upload_then_state [OF w1(1) assms(3), of rndB nowB sidB, unfolded assms(4)]
  have s1: "fst (get_state (state_manager ?w1) ?u)
      = (fst (get_state (state_manager w) ?u))
          \<lparr>s_file_key := Some (generate_file_key rndA), s_file_id := Some fidA,
           s_file_name := Some fnameA, s_file_size := Some fsizeA\<rparr>"
    using w1(2) by (simp add: get_state_def)
  have sB: "state_manager ?w2 ?u = Some ?sB"
    using w2(2) by (simp add: s1)
  then have a: "fst (get_state (state_manager ?w2) ?u) = ?sB"
    by (simp add: get_state_def)
  have kB: "s_file_key ?sB = Some ?kB"
    by simp
  note run = password_choice_callback_no_run
    [OF w2(1) sB kB generate_file_key_nonempty w2(3)]
  have msg: "links_message_for ?w2 ?sB ?md False
      = format_links_message fnameB ?kB False
          (Some (''https://stream.example.com/'' @ ?kB))
          (Some (''https://download.example.com/'' @ ?kB))
          (Some (''https://t.me/'' @ bot_username w @ ''/'' @ str_int sidB))"
    by (simp add: links_message_for_def str_opt_def w2(4) w1(4) FileMetadata_init_def)
  have b: "outbox ?w3 = outbox ?w2 @ [GetMe, EditText ?u (format_links_message fnameB ?kB False
          (Some (''https://stream.example.com/'' @ ?kB))
          (Some (''https://download.example.com/'' @ ?kB))
          (Some (''https://t.me/'' @ bot_username w @ ''/'' @ str_int sidB))),
        Answer ?u (Some (emoji_check @ '' Links generated!'')) False]"
    unfolding msg [symmetric] by (simp add: run)
  have c: "state_manager ?w3 ?u = None"
    by (simp add: run)
  show ?thesis
    unfolding Let_def
    using a b c key_not_in_stream_link [of rndA rndB] key_not_in_download_link [of rndA rndB]
      key_not_in_key_line [of rndA rndB]
      msg_key_line [of ?kB fnameB False]
    by (intro conjI impI) (assumption | rule sublist_append_leftI | blast)+
qed

theorem last_upload_wins_witness:
  "reliable ex_start
   \<and> extract_file ex_upload_A = Some (''fidA'', ''a.pdf'', 10)
   \<and> extract_file ex_upload_B = Some (''fidB'', ''video_uniqueB1'', 20)
   \<and> from_user ex_upload_B = from_user ex_upload_A
   \<and> generate_file_key rnd_A \<noteq> generate_file_key rnd_B
   \<and> fst (get_state (state_manager
         (snd (file_upload_handler rnd_B ''t2'' 43 ex_upload_B
           (snd (file_upload_handler rnd_A ''t1'' 42 ex_upload_A ex_start))))) 7)
       = (UserState_init 7)\<lparr>s_file_key := Some (generate_file_key rnd_B),
            s_file_id := Some ''fidB'', s_file_name := Some ''video_uniqueB1'',
            s_file_size := Some 20\<rparr>
   \<and> outbox (snd (password_choice_callback 7 ''pwd_no''
         (snd (file_upload_handler rnd_B ''t2'' 43 ex_upload_B
           (snd (file_upload_handler rnd_A ''t1'' 42 ex_upload_A ex_start))))))
       = outbox (snd (file_upload_handler rnd_B ''t2'' 43 ex_upload_B
           (snd (file_upload_handler rnd_A ''t1'' 42 ex_upload_A ex_start))))
         @ [GetMe,
            EditText 7 (format_links_message ''video_uniqueB1'' (generate_file_key rnd_B) False
              (Some (''https://stream.example.com/'' @ generate_file_key rnd_B))
              (Some (''https://download.example.com/'' @ generate_file_key rnd_B))
              (Some (''https://t.me/'' @ ''mybot'' @ ''/'' @ str_int 43))),
            Answer 7 (Some (emoji_check @ '' Links generated!'')) False]
   \<and> \<not> sublist (generate_file_key rnd_A)
         (''https://stream.example.com/'' @ generate_file_key rnd_B)"
proof -
  have u: "from_user ex_upload_A = 7" "from_user ex_upload_B = 7" "bot_username ex_start = ''mybot''"
    "fst (get_state (state_manager ex_start) 7) = UserState_init 7"
    by (simp_all add: ex_upload_A_def ex_upload_B_def ex_start_def get_state_def)
  have same: "from_user ex_upload_B = from_user ex_upload_A"
    by (simp add: u)
  from last_upload_wins [where rndA = rnd_A and nowA = "''t1''" and sidA = 42
        and rndB = rnd_B and nowB = "''t2''" and sidB = 43,
      OF ex_start_reliable ex_upload_A_file ex_upload_B_file same]
    ex_start_reliable ex_upload_A_file ex_upload_B_file same ex_keys_differ
  show ?thesis
    unfolding Let_def u by blast
qed

text \<open>
  C7: when the session of a user names a file key that the store does not hold, delivery
  leaves the sessions and the store as they were, whatever the platform does, so the
  session still shows the pending file; when the platform accepts the calls, the user
  is told that the file was not found. The same holds for the two handlers that run
  delivery.
\<close>

theorem delivery_not_found:
  assumes "state_manager w uid = Some state"
    and "s_file_key state = Some k"
    and "get_file (storage w) k = None"
  shows "state_manager (snd (deliver_links uid state has_pw pw orig w)) = state_manager w
     \<and> fst (get_state (state_manager (snd (deliver_links uid state has_pw pw orig w))) uid) = state
     \<and> storage (snd (deliver_links uid state has_pw pw orig w)) = storage w
     \<and> (reliable w \<longrightarrow>
          fst (deliver_links uid state has_pw pw orig w) = Inr ()
          \<and> outbox (snd (deliver_links uid state has_pw pw orig w)) =
              outbox w @
                [case orig of
                   FromCallback \<Rightarrow> Answer uid (Some (emoji_cross @ '' File not found'')) True
                 | FromMessage \<Rightarrow> ReplyText uid (emoji_cross @ '' File not found'')])
     \<and> (k \<noteq> [] \<longrightarrow>
          state_manager (snd (password_choice_callback uid ''pwd_no'' w)) = state_manager w)
     \<and> (awaiting_password state \<longrightarrow> strip t \<noteq> [] \<longrightarrow>
          state_manager (snd (password_input_handler uid (Some t) w)) = state_manager w)"
proof -
  from assms have nf: "lookup_file (storage w) (s_file_key state) = None"
    by (simp add: lookup_file_def)
  have frame: "state_manager (snd (deliver_links uid state hp p og w)) = state_manager w
     \<and> storage (snd (deliver_links uid state hp p og w)) = storage w" for hp p og
    using nf by (rule deliver_links_not_found_frame)
  have a: "fst (get_state (state_manager (snd (deliver_links uid state has_pw pw orig w))) uid) = state"
    using frame assms(1) by (simp add: get_state_Some)
  have b: "fst (deliver_links uid state has_pw pw orig w) = Inr ()
          \<and> outbox (snd (deliver_links uid state has_pw pw orig w)) =
              outbox w @
                [case orig of
                   FromCallback \<Rightarrow> Answer uid (Some (emoji_cross @ '' File not found'')) True
                 | FromMessage \<Rightarrow> ReplyText uid (emoji_cross @ '' File not found'')]"
    if "reliable w"
    using deliver_links_not_found_run [OF that nf] by simp
  have c: "state_manager (snd (password_choice_callback uid ''pwd_no'' w)) = state_manager w"
    if "k \<noteq> []"
  proof -
    have "state_manager (snd (try_except (deliver_links uid state False None FromCallback)
       (\<lambda>e. case e of
          RpcError \<Rightarrow> platform_call
            (Answer uid (Some (emoji_cross @ '' Error processing choice'')) True)
        | _ \<Rightarrow> platform_call
            (Answer uid (Some (emoji_cross @ '' Unexpected error'')) True)) w)) = state_manager w"
      using try_except_frame [of "deliver_links uid state False None FromCallback" w
          "\<lambda>e. case e of
          RpcError \<Rightarrow> platform_call
            (Answer uid (Some (emoji_cross @ '' Error processing choice'')) True)
        | _ \<Rightarrow> platform_call
            (Answer uid (Some (emoji_cross @ '' Unexpected error'')) True)"]
        frame [of False None FromCallback]
      by (simp add: platform_call_frame split: exn.splits)
    then show ?thesis
      using password_choice_callback_no [OF assms(1) assms(2) that] by simp
  qed
  have d: "state_manager (snd (password_input_handler uid (Some t) w)) = state_manager w"
    if "awaiting_password state" "strip t \<noteq> []"
  proof -
    have "data (storage w) k = None"
      using assms(3) by (simp add: get_file_def)
    then have same: "w\<lparr>storage := snd (update_password (storage w) k (strip t))\<rparr> = w"
      by (simp add: update_password_absent)
    have "bindE (modify (\<lambda>w.
           (case s_file_key state of
              None \<Rightarrow> w
            | Some k \<Rightarrow> w\<lparr>storage := snd (update_password (storage w) k (strip t))\<rparr>)))
          (\<lambda>_. deliver_links uid state True (Some (strip t)) FromMessage) w
        = deliver_links uid state True (Some (strip t)) FromMessage w"
      using assms(2) same by (simp add: bindE_def modify_def)
    then have "state_manager (snd (try_except
       (bindE (modify (\<lambda>w.
           (case s_file_key state of
              None \<Rightarrow> w
            | Some k \<Rightarrow> w\<lparr>storage := snd (update_password (storage w) k (strip t))\<rparr>)))
          (\<lambda>_. deliver_links uid state True (Some (strip t)) FromMessage))
       (\<lambda>e. platform_call
          (ReplyText uid (emoji_cross @ '' Error setting password. Please try again.''))) w))
       = state_manager w"
      using try_except_frame [of "bindE (modify (\<lambda>w.
           (case s_file_key state of
              None \<Rightarrow> w
            | Some k \<Rightarrow> w\<lparr>storage := snd (update_password (storage w) k (strip t))\<rparr>)))
          (\<lambda>_. deliver_links uid state True (Some (strip t)) FromMessage)" w
          "\<lambda>e. platform_call
          (ReplyText uid (emoji_cross @ '' Error setting password. Please try again.''))"]
        frame [of True "Some (strip t)" FromMessage]
      by (simp add: platform_call_frame)
    then show ?thesis
      using password_input_handler_accept [OF assms(1) that] by simp
  qed
  from frame [of has_pw pw orig] a b c d show ?thesis
    by blast
qed

theorem delivery_not_found_witness:
  "state_manager (snd (deliver_links 7 ex_session False None FromCallback ex_orphan)) = state_manager ex_orphan
   \<and> fst (get_state (state_manager (snd (deliver_links 7 ex_session False None FromCallback ex_orphan))) 7)
       = ex_session
   \<and> outbox (snd (deliver_links 7 ex_session False None FromCallback ex_orphan))
       = outbox ex_orphan @ [Answer 7 (Some (emoji_cross @ '' File not found'')) True]
   \<and> state_manager (snd (password_choice_callback 7 ''pwd_no'' ex_orphan)) = state_manager ex_orphan"
proof -
  have h1: "state_manager ex_orphan 7 = Some ex_session"
    by (simp add: ex_orphan_def)
  have h2: "s_file_key ex_session = Some ''gone''"
    by (simp add: ex_session_def)
  have h3: "get_file (storage ex_orphan) ''gone'' = None"
    by (simp add: ex_orphan_def get_file_def)
  have h4: "reliable ex_orphan"
    by (simp add: ex_orphan_def reliable_def)
  have h5: "''gone'' \<noteq> []"
    by simp
  from delivery_not_found [OF h1 h2 h3, of False None FromCallback "''x''"] h4 h5
  show ?thesis
    by (simp add: get_state_Some h1)
qed

text \<open>
  The two presses and the sessions, for a user with a pending file and on every platform:
  the set-password press leaves the session with \<open>awaiting_password = True\<close> and the
  choice \<open>"yes"\<close>; after the no-password press the sessions are as they were or the
  user's session is removed.
\<close>

lemma choice_press_sessions:
  assumes "state_manager w uid = Some state" and "s_file_key state = Some k" and "k \<noteq> []"
  shows "fst (get_state (state_manager (snd (password_choice_callback uid ''pwd_yes'' w))) uid)
       = state\<lparr>awaiting_password := True, password_choice := Some ''yes''\<rparr>
     \<and> (state_manager (snd (password_choice_callback uid ''pwd_no'' w)) = state_manager w
        \<or> state_manager (snd (password_choice_callback uid ''pwd_no'' w))
             = (state_manager w)(uid := None))
     \<and> (password_choice
          (fst (get_state (state_manager (snd (password_choice_callback uid ''pwd_no'' w))) uid))
           = password_choice state
        \<or> password_choice
          (fst (get_state (state_manager (snd (password_choice_callback uid ''pwd_no'' w))) uid))
           = None)"
proof -
  let ?sm' = "(state_manager w)
     (uid \<mapsto> state\<lparr>awaiting_password := True, password_choice := Some ''yes''\<rparr>)"
  let ?I = "\<lambda>x. state_manager x = ?sm'"
  have pcI: "preserves ?I (platform_call a)" for a
    using platform_call_preserves [of "\<lambda>sm st. sm = ?sm'" a] .
  have "preserves ?I (try_except
       (bindE (platform_call (EditText uid
                 (emoji_locked_key @ '' Enter a password for your file:'' @ nl @ nl
                    @ ''Just send the password as a message.'')))
          (\<lambda>_. platform_call (Answer uid None False)))
       (\<lambda>e. case e of
          RpcError \<Rightarrow> platform_call
            (Answer uid (Some (emoji_cross @ '' Error processing choice'')) True)
        | _ \<Rightarrow> platform_call
            (Answer uid (Some (emoji_cross @ '' Unexpected error'')) True)))"
    by (intro preserves_try_except preserves_bindE exn_handler_preserves pcI)
  then have "state_manager (snd (password_choice_callback uid ''pwd_yes'' w)) = ?sm'"
    unfolding password_choice_callback_yes [OF assms]
    by (simp add: preserves_def)
  then have yes: "fst (get_state (state_manager (snd (password_choice_callback uid ''pwd_yes'' w))) uid)
       = state\<lparr>awaiting_password := True, password_choice := Some ''yes''\<rparr>"
    by (simp add: get_state_def)
  let ?J = "\<lambda>x. state_manager x = state_manager w \<or> state_manager x = (state_manager w)(uid := None)"
  have pcJ: "preserves ?J (platform_call a)" for a
    using platform_call_preserves
      [of "\<lambda>sm st. sm = state_manager w \<or> sm = (state_manager w)(uid := None)" a] .
  have clJ: "preserves ?J (modify (\<lambda>w. w\<lparr>state_manager := clear_state (state_manager w) uid\<rparr>))"
    using assms(1) by (auto simp: preserves_def modify_def clear_state_def)
  have "preserves ?J (try_except (deliver_links uid state False None FromCallback)
       (\<lambda>e. case e of
          RpcError \<Rightarrow> platform_call
            (Answer uid (Some (emoji_cross @ '' Error processing choice'')) True)
        | _ \<Rightarrow> platform_call
            (Answer uid (Some (emoji_cross @ '' Unexpected error'')) True)))"
    by (intro preserves_try_except deliver_links_preserves exn_handler_preserves pcJ clJ)
  then have no: "?J (snd (password_choice_callback uid ''pwd_no'' w))"
    unfolding password_choice_callback_no [OF assms]
    by (simp add: preserves_def)
  then have "password_choice
          (fst (get_state (state_manager (snd (password_choice_callback uid ''pwd_no'' w))) uid))
           = password_choice state
        \<or> password_choice
          (fst (get_state (state_manager (snd (password_choice_callback uid ''pwd_no'' w))) uid))
           = None"
    using assms(1) by (auto simp: get_state_def UserState_init_def)
  with yes no show ?thesis
    by blast
qed

lemma file_upload_handler_three_calls:
  assumes "faults w = False # False # False # fs"
    and "extract_file m = Some (fid, fname, fsize)"
  shows "file_upload_handler rnd now sid m w =
     (Inr (), w\<lparr>storage := snd (store_file (storage w)
                   (FileMetadata_init now (generate_file_key rnd) fid fname fsize (from_user m) sid
                      False None None)),
                state_manager := set_file_info (state_manager w) (from_user m)
                   (generate_file_key rnd) fid fname fsize,
                outbox := outbox w @
                    [ReplyText (from_user m) (emoji_hourglass @ '' Processing your file...''),
                     ForwardMessages (STORAGE_CHANNEL_ID w) (from_user m) (message_id m),
                     EditFileReceived (from_user m) fname fsize (generate_file_key rnd)
                       password_choice_keyboard],
                faults := fs\<rparr>)"
  using assms
  by (simp add: file_upload_handler_def comp_defs platform_call_def Let_def)

lemma ex_flaky_pending:
  "state_manager (snd (file_upload_handler rnd_A ''t1'' 42 ex_upload_A ex_flaky)) 7
     = Some ((UserState_init 7)\<lparr>s_file_key := Some (generate_file_key rnd_A),
          s_file_id := Some ''fidA'', s_file_name := Some ''a.pdf'', s_file_size := Some 10\<rparr>)"
  "get_file (storage (snd (file_upload_handler rnd_A ''t1'' 42 ex_upload_A ex_flaky)))
       (generate_file_key rnd_A)
     = Some (FileMetadata_init ''t1'' (generate_file_key rnd_A) ''fidA'' ''a.pdf'' 10 7 42
            False None None)"
  "faults (snd (file_upload_handler rnd_A ''t1'' 42 ex_upload_A ex_flaky)) = [True]"
  "outbox (snd (file_upload_handler rnd_A ''t1'' 42 ex_upload_A ex_flaky))
     = [ReplyText 7 (emoji_hourglass @ '' Processing your file...''),
        ForwardMessages (- 100) 7 11,
        EditFileReceived 7 ''a.pdf'' 10 (generate_file_key rnd_A) password_choice_keyboard]"
proof -
  have f: "faults ex_flaky = False # False # False # [True]"
    by (simp add: ex_flaky_def)
  note run = file_upload_handler_three_calls [OF f ex_upload_A_file, of rnd_A "''t1''" 42]
  have u: "from_user ex_upload_A = 7" "message_id ex_upload_A = 11"
    by (simp_all add: ex_upload_A_def)
  have e: "state_manager ex_flaky 7 = None" "outbox ex_flaky = []"
    "STORAGE_CHANNEL_ID ex_flaky = - 100"
    by (simp_all add: ex_flaky_def)
  show "state_manager (snd (file_upload_handler rnd_A ''t1'' 42 ex_upload_A ex_flaky)) 7
     = Some ((UserState_init 7)\<lparr>s_file_key := Some (generate_file_key rnd_A),
          s_file_id := Some ''fidA'', s_file_name := Some ''a.pdf'', s_file_size := Some 10\<rparr>)"
    by (simp add: run u e set_file_info_def get_state_def Let_def)
  show "get_file (storage (snd (file_upload_handler rnd_A ''t1'' 42 ex_upload_A ex_flaky)))
       (generate_file_key rnd_A)
     = Some (FileMetadata_init ''t1'' (generate_file_key rnd_A) ''fidA'' ''a.pdf'' 10 7 42
            False None None)"
    by (simp add: run u get_file_def data_store_file FileMetadata_init_def)
  show "faults (snd (file_upload_handler rnd_A ''t1'' 42 ex_upload_A ex_flaky)) = [True]"
    by (simp add: run)
  show "outbox (snd (file_upload_handler rnd_A ''t1'' 42 ex_upload_A ex_flaky))
     = [ReplyText 7 (emoji_hourglass @ '' Processing your file...''),
        ForwardMessages (- 100) 7 11,
        EditFileReceived 7 ''a.pdf'' 10 (generate_file_key rnd_A) password_choice_keyboard]"
    by (simp add: run u e)
qed

lemma deliver_links_first_call_fails:
  assumes "faults w = [True]" and "lookup_file (storage w) (s_file_key state) = Some md"
  shows "deliver_links uid state has_pw pw FromCallback w
     = (Inr (), w\<lparr>outbox := outbox w @
          [Answer uid (Some (emoji_cross @ '' Error generating links. Please try again.'')) True],
          faults := []\<rparr>)"
  using assms
  by (simp add: deliver_links_def comp_defs platform_call_def report_def
      generate_stream_link_eq generate_download_link_eq)

text \<open>
  C8, at the no-password press of user 7 after upload A on a platform that fails the call
  after the upload (delivery stops at its first call and the session stays): the session
  holds no choice, where the claim has \<open>"no"\<close>, and the user is told of the error; the
  set-password press in the same situation leaves the choice \<open>"yes"\<close>. The session that
  names a key the store does not hold stays without a choice at the no-password press
  as well.
\<close>

theorem no_password_press_leaves_no_choice:
  "map_option password_choice (state_manager
      (snd (password_choice_callback 7 ''pwd_no''
        (snd (file_upload_handler rnd_A ''t1'' 42 ex_upload_A ex_flaky)))) 7)
     = Some None
   \<and> outbox (snd (password_choice_callback 7 ''pwd_no''
        (snd (file_upload_handler rnd_A ''t1'' 42 ex_upload_A ex_flaky))))
     = outbox (snd (file_upload_handler rnd_A ''t1'' 42 ex_upload_A ex_flaky))
       @ [Answer 7 (Some (emoji_cross @ '' Error generating links. Please try again.'')) True]
   \<and> map_option password_choice (state_manager
      (snd (password_choice_callback 7 ''pwd_yes''
        (snd (file_upload_handler rnd_A ''t1'' 42 ex_upload_A ex_flaky)))) 7)
     = Some (Some ''yes'')
   \<and> map_option password_choice (state_manager
      (snd (password_choice_callback 7 ''pwd_no'' ex_orphan)) 7)
     = Some None"
proof -
  let ?w1 = "snd (file_upload_handler rnd_A ''t1'' 42 ex_upload_A ex_flaky)"
  let ?s1 = "(UserState_init 7)\<lparr>s_file_key := Some (generate_file_key rnd_A),
          s_file_id := Some ''fidA'', s_file_name := Some ''a.pdf'', s_file_size := Some 10\<rparr>"
  have look: "lookup_file (storage ?w1) (s_file_key ?s1)
      = Some (FileMetadata_init ''t1'' (generate_file_key rnd_A) ''fidA'' ''a.pdf'' 10 7 42
            False None None)"
    using ex_flaky_pending(2) by (simp add: lookup_file_def)
  have no: "password_choice_callback 7 ''pwd_no'' ?w1
      = (Inr (), ?w1\<lparr>outbox := outbox ?w1 @
          [Answer 7 (Some (emoji_cross @ '' Error generating links. Please try again.'')) True],
          faults := []\<rparr>)"
    unfolding password_choice_callback_no
      [OF ex_flaky_pending(1) ex_pending_key generate_file_key_nonempty]
    by (simp add: try_except_def
        deliver_links_first_call_fails [OF ex_flaky_pending(3) look])
  have a: "map_option password_choice (state_manager
      (snd (password_choice_callback 7 ''pwd_no'' ?w1)) 7) = Some None"
    by (simp add: no ex_flaky_pending(1) UserState_init_def)
  have b: "outbox (snd (password_choice_callback 7 ''pwd_no'' ?w1)) = outbox ?w1 @
          [Answer 7 (Some (emoji_cross @ '' Error generating links. Please try again.'')) True]"
    by (simp add: no)
  have "fst (get_state (state_manager (snd (password_choice_callback 7 ''pwd_yes'' ?w1))) 7)
      = ?s1\<lparr>awaiting_password := True, password_choice := Some ''yes''\<rparr>"
    using choice_press_sessions [OF ex_flaky_pending(1) ex_pending_key generate_file_key_nonempty]
    by blast
  then have c: "map_option password_choice (state_manager
      (snd (password_choice_callback 7 ''pwd_yes'' ?w1)) 7) = Some (Some ''yes'')"
    by (auto simp: get_state_def UserState_init_def split: option.splits)
  have h: "state_manager ex_orphan 7 = Some ex_session" "s_file_key ex_session = Some ''gone''"
    "get_file (storage ex_orphan) ''gone'' = None" "''gone'' \<noteq> []"
    by (simp_all add: ex_orphan_def ex_session_def get_file_def)
  have "lookup_file (storage ex_orphan) (s_file_key ex_session) = None"
    using h(2,3) by (simp add: lookup_file_def)
  then have "state_manager (snd (password_choice_callback 7 ''pwd_no'' ex_orphan))
      = state_manager ex_orphan"
    unfolding password_choice_callback_no [OF h(1) h(2) h(4)]
    by (simp add: try_except_def deliver_links_not_found_run ex_orphan_def reliable_def)
  then have d: "map_option password_choice (state_manager
      (snd (password_choice_callback 7 ''pwd_no'' ex_orphan)) 7) = Some None"
    by (simp add: h(1) ex_session_def UserState_init_def)
  from a b c d show ?thesis
    by blast
qed

text \<open>
  C10: for a user who is awaiting a password for a stored file, a text whose stripped
  form is not empty stores that stripped form as the password, whatever the platform
  does afterwards. The stripped form starts and ends with no whitespace character, and
  the text is the stripped form between two runs of whitespace characters. A text whose
  stripped form is empty, as every text made of whitespace characters only is, changes
  neither the store nor the sessions and is answered by the re-prompt.
\<close>

theorem password_is_stripped_text:
  assumes "state_manager w uid = Some state" and "awaiting_password state"
    and "s_file_key state = Some k" and "data (storage w) k = Some md"
  shows "(strip t \<noteq> [] \<longrightarrow>
           get_file (storage (snd (password_input_handler uid (Some t) w))) k
             = Some (md\<lparr>has_password := True, password := Some (strip t)\<rparr>))
     \<and> (\<forall>ws\<in>set whitespace. \<not> prefix ws (strip t) \<and> \<not> suffix ws (strip t))
     \<and> (\<exists>ls rs. set ls \<subseteq> set whitespace \<and> set rs \<subseteq> set whitespace
           \<and> t = concat ls @ strip t @ concat rs)
     \<and> (strip t = [] \<longrightarrow>
           storage (snd (password_input_handler uid (Some t) w)) = storage w
           \<and> state_manager (snd (password_input_handler uid (Some t) w)) = state_manager w
           \<and> (reliable w \<longrightarrow>
                outbox (snd (password_input_handler uid (Some t) w)) = outbox w @
                  [ReplyText uid (emoji_cross @ '' Password cannot be empty. Please try again:'')]))
     \<and> (set xs \<subseteq> set whitespace \<longrightarrow> strip (concat xs) = [])"
proof -
  have accept: "get_file (storage (snd (password_input_handler uid (Some t) w))) k
             = Some (md\<lparr>has_password := True, password := Some (strip t)\<rparr>)"
    if ne: "strip t \<noteq> []"
  proof -
    let ?st = "snd (update_password (storage w) k (strip t))"
    let ?I = "\<lambda>x. storage x = ?st"
    have pc: "preserves ?I (platform_call a)" for a
      using platform_call_preserves [of "\<lambda>sm st. st = ?st" a] .
    have cl: "preserves ?I (modify (\<lambda>w. w\<lparr>state_manager := clear_state (state_manager w) uid\<rparr>))"
      by (simp add: preserves_def modify_def)
    have "preserves ?I (try_except
       (bindE (returnE ()) (\<lambda>_. deliver_links uid state True (Some (strip t)) FromMessage))
       (\<lambda>e. platform_call
          (ReplyText uid (emoji_cross @ '' Error setting password. Please try again.''))))"
      by (intro preserves_try_except preserves_bindE preserves_pure deliver_links_preserves pc cl)
    then have "storage (snd (try_except
       (bindE (returnE ()) (\<lambda>_. deliver_links uid state True (Some (strip t)) FromMessage))
       (\<lambda>e. platform_call
          (ReplyText uid (emoji_cross @ '' Error setting password. Please try again.'')))
       (w\<lparr>storage := ?st\<rparr>))) = ?st"
      by (simp add: preserves_def)
    moreover have "password_input_handler uid (Some t) w
      = try_except
       (bindE (returnE ()) (\<lambda>_. deliver_links uid state True (Some (strip t)) FromMessage))
       (\<lambda>e. platform_call
          (ReplyText uid (emoji_cross @ '' Error setting password. Please try again.'')))
       (w\<lparr>storage := ?st\<rparr>)"
      unfolding password_input_handler_accept [OF assms(1,2) ne]
      using assms(3) by (simp add: try_except_def bindE_def modify_def returnE_def)
    ultimately show ?thesis
      using assms(4) by (simp add: update_password_present)
  qed
  have reject: "storage (snd (password_input_handler uid (Some t) w)) = storage w
           \<and> state_manager (snd (password_input_handler uid (Some t) w)) = state_manager w
           \<and> (reliable w \<longrightarrow>
                outbox (snd (password_input_handler uid (Some t) w)) = outbox w @
                  [ReplyText uid (emoji_cross @ '' Password cannot be empty. Please try again:'')])"
    if e: "strip t = []"
    unfolding password_input_handler_reject [OF assms(1,2) e]
    by (simp add: platform_call_frame reliable_def platform_call_reliable)
  from accept reject strip_no_whitespace_ends [of _ t] strip_decomp [of t]
    strip_whitespace_only [of xs]
  show ?thesis
    by blast
qed

theorem password_is_stripped_text_witness:
  "state_manager ex_waiting 7 = Some ex_waiting_session \<and> awaiting_password ex_waiting_session
   \<and> s_file_key ex_waiting_session = Some ''k1'' \<and> data (storage ex_waiting) ''k1'' = Some ex_record
   \<and> strip ''  secret '' \<noteq> []
   \<and> get_file (storage (snd (password_input_handler 7 (Some ''  secret '') ex_waiting))) ''k1''
       = Some (ex_record\<lparr>has_password := True, password := Some ''secret''\<rparr>)"
proof -
  have h: "state_manager ex_waiting 7 = Some ex_waiting_session" "awaiting_password ex_waiting_session"
    "s_file_key ex_waiting_session = Some ''k1''" "data (storage ex_waiting) ''k1'' = Some ex_record"
    by (simp_all add: ex_waiting_def ex_waiting_session_def)
  from password_is_stripped_text [OF h, of "''  secret ''", THEN conjunct1] h
  show ?thesis
    by (simp add: strip_padded_secret)
qed

end
